theory Spec2Isabelle
  imports Complex_Main
begin

section \<open>The service worker of Tests Hub (sw.js)\<close>

text \<open>
  A shallow embedding of \<^verbatim>\<open>src/sw.js\<close>. The worker is event driven; each handler of
  the source becomes a function from the worker's state (the cache storage, the log of
  network fetches, the notifications shown, the lifecycle flags, the messages posted) to
  the updated state. What the platform supplies (the network, the clock, the storage
  estimate, the date parser, the JSON parser, the worker's origin) is the record
  \<open>env\<close>, an input of every handler.
\<close>

subsection \<open>Constants of the source\<close>

definition CACHE_NAME :: string where
  "CACHE_NAME = ''tests-hub-v2.1.7''"

definition STATIC_CACHE_NAME :: string where
  "STATIC_CACHE_NAME = ''tests-hub-static-v2.1.7''"

definition DYNAMIC_CACHE_NAME :: string where
  "DYNAMIC_CACHE_NAME = ''tests-hub-dynamic-v2.1.7''"

definition STATIC_ASSETS :: "string list" where
  "STATIC_ASSETS =
     [''/'',
      ''/index.html'',
      ''/Tests_7th.html'',
      ''/Tests_8th.html'',
      ''/Tests_9th.html'',
      ''/Tests_1st_secondary.html'',
      ''/Tests_2nd_secondary.html'',
      ''/Tests_3rd_secondary.html'',
      ''/Tests_4th_secondary.html'',
      ''/manifest.json'',
      ''/sw.js'']"

definition MAX_AGE_DAYS :: int where
  "MAX_AGE_DAYS = 7"

definition MAX_AGE_MS :: int where
  "MAX_AGE_MS = MAX_AGE_DAYS * 24 * 60 * 60 * 1000"

definition NOTIFICATION_ICON :: string where
  "NOTIFICATION_ICON = ''/assets/icons/icon-96x96.png''"

subsection \<open>Requests, responses and the platform\<close>

text \<open>
  Header names are kept in lower case, as the platform's \<open>Headers\<close> object normalises
  them, so \<open>headers.get('Accept')\<close> is the lookup of \<open>''accept''\<close>. A missing header
  is \<open>None\<close> (JavaScript's \<open>null\<close>).
\<close>

type_synonym headers = "(string \<times> string) list"

definition headersGet :: "headers \<Rightarrow> string \<Rightarrow> string option" where
  "headersGet hs name = map_of hs name"

record request =
  reqMethod :: string
  reqUrl :: string
  reqHeaders :: headers

record response =
  status :: nat
  statusText :: string
  respHeaders :: headers
  body :: string

text \<open>\<open>response.ok\<close>: the status is in the range 200 to 299.\<close>

definition responseOk :: "response \<Rightarrow> bool" where
  "responseOk r = (200 \<le> status r \<and> status r \<le> 299)"

text \<open>
  JSON values, as \<open>JSON.parse\<close> and the structured clone of a message deliver them. An
  object is the list of its properties; the parser has already resolved repeated keys.
\<close>

datatype json =
    JNull
  | JBool bool
  | JNumber rat
  | JString string
  | JArray "json list"
  | JObject "(string \<times> json) list"

datatype error = TypeError

text \<open>
  The platform. \<open>network\<close> is the outcome of \<open>fetch\<close> on a request: \<open>None\<close> when
  the promise rejects (the network is unreachable), otherwise the response, whatever its
  status. \<open>clock\<close> is the current time in milliseconds since the epoch.
  \<open>storageEstimate\<close> is \<open>None\<close> when \<open>navigator.storage.estimate\<close> is missing, otherwise
  the pair (usage, quota). \<open>dateParse\<close> is the date parser behind \<open>new Date(string)\<close>:
  \<open>None\<close> for an invalid date (time value NaN). \<open>jsonParse\<close> is \<open>JSON.parse\<close>:
  \<open>None\<close> when it throws. \<open>origin\<close> is the origin against which the worker resolves
  the relative URLs written in the source.
\<close>

record env =
  origin :: string
  network :: "request \<Rightarrow> response option"
  clock :: int
  storageEstimate :: "(nat \<times> nat) option"
  dateParse :: "string \<Rightarrow> int option"
  jsonParse :: "string \<Rightarrow> json option"

definition resolveUrl :: "env \<Rightarrow> string \<Rightarrow> string" where
  "resolveUrl e path = origin e @ path"

text \<open>The request that \<open>fetch(url)\<close> and \<open>cache.addAll\<close> build from a URL string.\<close>

definition mkRequest :: "env \<Rightarrow> string \<Rightarrow> request" where
  "mkRequest e path = \<lparr>reqMethod = ''GET'', reqUrl = resolveUrl e path, reqHeaders = []\<rparr>"

subsection \<open>Strings\<close>

text \<open>\<open>String.prototype.startsWith\<close> and \<open>String.prototype.includes\<close>.\<close>

definition startsWith :: "string \<Rightarrow> string \<Rightarrow> bool" where
  "startsWith s p = (take (length p) s = p)"

fun includesStr :: "string \<Rightarrow> string \<Rightarrow> bool" where
  "includesStr [] p = (p = [])"
| "includesStr (c # cs) p = (startsWith (c # cs) p \<or> includesStr cs p)"

text \<open>\<open>request.headers.get('Accept')?.includes('text/html')\<close>, read as a condition.\<close>

definition acceptsHtml :: "request \<Rightarrow> bool" where
  "acceptsHtml rq =
     (case headersGet (reqHeaders rq) ''accept'' of
        None \<Rightarrow> False
      | Some a \<Rightarrow> includesStr a ''text/html'')"

text \<open>
  The URL without its fragment: the Cache API compares the URL of a request with the URL
  of a stored request with the fragments excluded.
\<close>

definition urlKey :: "string \<Rightarrow> string" where
  "urlKey u = takeWhile (\<lambda>c. c \<noteq> CHR ''#'') u"

text \<open>The scheme of a URL is http or https.\<close>

definition httpScheme :: "string \<Rightarrow> bool" where
  "httpScheme u = (startsWith u ''http://'' \<or> startsWith u ''https://'')"

text \<open>
  The field values of a \<open>Vary\<close> header: the header value split at the commas, each
  part without the blanks and tabs around it.
\<close>

fun splitComma :: "string \<Rightarrow> string list" where
  "splitComma [] = [[]]"
| "splitComma (c # cs) =
     (if c = CHR '','' then [] # splitComma cs
      else (case splitComma cs of
              [] \<Rightarrow> [[c]]
            | x # xs \<Rightarrow> (c # x) # xs))"

definition isBlank :: "char \<Rightarrow> bool" where
  "isBlank c = (c = CHR '' '' \<or> c = CHR 0x09)"

definition trimBlanks :: "string \<Rightarrow> string" where
  "trimBlanks s = rev (dropWhile isBlank (rev (dropWhile isBlank s)))"

definition varyStar :: "response \<Rightarrow> bool" where
  "varyStar r =
     (case headersGet (respHeaders r) ''vary'' of
        None \<Rightarrow> False
      | Some v \<Rightarrow> ''*'' \<in> set (map trimBlanks (splitComma v)))"

subsection \<open>The cache storage\<close>

text \<open>
  A cache is the list of its entries in insertion order, each the URL of the stored
  request with the stored response. A request matches an entry when their URLs are equal
  up to the fragment; the comparison of the headers that a \<open>Vary\<close> header names is not
  modelled, and neither is the method, which is GET for every request that reaches a
  cache. \<open>cache.put\<close> rejects with a \<open>TypeError\<close> a request whose scheme is not http
  or https or whose method is not GET, a response with status 206, and a response whose
  \<open>Vary\<close> header has the field value \<open>*\<close>; otherwise it removes the entries that the
  request matches and appends the new one, as the Cache API's batch operation does, so
  \<open>cache.keys()\<close> lists the keys by the time of their last write. The cache storage is
  the list of the named caches in creation order, which is the order of \<open>caches.keys()\<close>
  and the order in which \<open>caches.match\<close> searches.
\<close>

type_synonym cache = "(string \<times> response) list"

type_synonym cacheStorage = "(string \<times> cache) list"

text \<open>The list operation of an accepted \<open>put\<close>, the test of \<open>put\<close>, and \<open>put\<close>.\<close>

definition cacheReplace :: "string \<Rightarrow> response \<Rightarrow> cache \<Rightarrow> cache" where
  "cacheReplace k r c = filter (\<lambda>(k', _). urlKey k' \<noteq> urlKey k) c @ [(k, r)]"

definition putAccepts :: "request \<Rightarrow> response \<Rightarrow> bool" where
  "putAccepts rq r =
     (httpScheme (reqUrl rq) \<and> reqMethod rq = ''GET'' \<and> status r \<noteq> 206 \<and> \<not> varyStar r)"

definition cachePut :: "request \<Rightarrow> response \<Rightarrow> cache \<Rightarrow> error + cache" where
  "cachePut rq r c =
     (if putAccepts rq r then Inr (cacheReplace (reqUrl rq) r c) else Inl TypeError)"

definition cacheDelete :: "string \<Rightarrow> cache \<Rightarrow> cache" where
  "cacheDelete k c = filter (\<lambda>(k', _). urlKey k' \<noteq> urlKey k) c"

definition cacheKeys :: "cache \<Rightarrow> string list" where
  "cacheKeys c = map fst c"

definition cacheMatch :: "cache \<Rightarrow> string \<Rightarrow> response option" where
  "cacheMatch c k = map_of (map (\<lambda>(k', r). (urlKey k', r)) c) (urlKey k)"

definition cachesKeys :: "cacheStorage \<Rightarrow> string list" where
  "cachesKeys cs = map fst cs"

text \<open>\<open>caches.open(name)\<close> creates the cache when no cache has the name.\<close>

definition cachesOpen :: "string \<Rightarrow> cacheStorage \<Rightarrow> cacheStorage" where
  "cachesOpen n cs = (if n \<in> set (cachesKeys cs) then cs else cs @ [(n, [])])"

definition cachesDelete :: "string \<Rightarrow> cacheStorage \<Rightarrow> cacheStorage" where
  "cachesDelete n cs = filter (\<lambda>(m, _). m \<noteq> n) cs"

text \<open>The entries of the cache named \<open>n\<close>, and an update of that cache in place.\<close>

definition cacheOf :: "string \<Rightarrow> cacheStorage \<Rightarrow> cache" where
  "cacheOf n cs = (case map_of cs n of None \<Rightarrow> [] | Some c \<Rightarrow> c)"

definition cacheModify :: "string \<Rightarrow> (cache \<Rightarrow> cache) \<Rightarrow> cacheStorage \<Rightarrow> cacheStorage" where
  "cacheModify n f cs = map (\<lambda>(m, c). if m = n then (m, f c) else (m, c)) cs"

text \<open>\<open>caches.match(request)\<close>: the first cache, in creation order, that holds the key.\<close>

fun cachesMatch :: "cacheStorage \<Rightarrow> string \<Rightarrow> response option" where
  "cachesMatch [] k = None"
| "cachesMatch ((n, c) # cs) k =
     (case cacheMatch c k of Some r \<Rightarrow> Some r | None \<Rightarrow> cachesMatch cs k)"

subsection \<open>The state of the worker\<close>

record notification =
  ntitle :: "json option"
  noptions :: "string \<Rightarrow> json option"

record versionReply =
  version :: string
  cacheName :: string

record sw_state =
  caches :: cacheStorage
  fetchLog :: "request list"
  notifications :: "notification list"
  posted :: "(nat \<times> versionReply) list"
  skipWaitingCalled :: bool
  clientsClaimed :: bool

subsection \<open>The activate handler\<close>

text \<open>
  The handler takes \<open>caches.keys()\<close> and deletes every cache whose name is none of the
  three constants; then it claims the clients.
\<close>

definition activate :: "sw_state \<Rightarrow> sw_state" where
  "activate st =
     (let cacheNames = cachesKeys (caches st);
          cs = fold (\<lambda>cacheName cs.
                  if cacheName \<noteq> CACHE_NAME \<and>
                     cacheName \<noteq> STATIC_CACHE_NAME \<and>
                     cacheName \<noteq> DYNAMIC_CACHE_NAME
                  then cachesDelete cacheName cs
                  else cs) cacheNames (caches st)
      in st\<lparr>caches := cs, clientsClaimed := True\<rparr>)"

definition isCurrentCacheName :: "string \<Rightarrow> bool" where
  "isCurrentCacheName n =
     (n = CACHE_NAME \<or> n = STATIC_CACHE_NAME \<or> n = DYNAMIC_CACHE_NAME)"

subsection \<open>The offline response\<close>

text \<open>
  The template literal of \<open>offlineResponse\<close>, byte for byte as the source file holds it
  (tabs are \<open>CHR 0x09\<close>, the line ends \<open>CHR 0x0A\<close>, the quotation marks \<open>CHR 0x22\<close>
  and the characters before "You're" the bytes the file stores there).
\<close>

definition offlineHtml :: string where
  "offlineHtml =
     concat (map (\<lambda>l. l @ [CHR 0x0A])
       [[],
        [CHR 0x09, CHR 0x09, CHR 0x09] @ ''<!DOCTYPE html>'',
        [CHR 0x09, CHR 0x09, CHR 0x09] @ ''<html>'',
        [CHR 0x09, CHR 0x09, CHR 0x09] @ ''<head>'',
        [CHR 0x09, CHR 0x09, CHR 0x09] @ ''<title>Tests Hub - Offline</title>'',
        [CHR 0x09, CHR 0x09, CHR 0x09] @ ''<style>'',
        ''            body { font-family: Arial, sans-serif; padding: 20px; text-align: center; }'',
        ''            .container { max-width: 500px; margin: 100px auto; }'',
        ''            h1 { color: #e74c3c; }'',
        ''            button { padding: 10px 20px; background: #3498db; color: white; border: none; border-radius: 5px; cursor: pointer; }'',
        [CHR 0x09, CHR 0x09, CHR 0x09] @ ''</style>'',
        [CHR 0x09, CHR 0x09, CHR 0x09] @ ''</head>'',
        [CHR 0x09, CHR 0x09, CHR 0x09] @ ''<body>'',
        [CHR 0x09, CHR 0x09, CHR 0x09] @ ''<div class='' @ [CHR 0x22] @ ''container'' @ [CHR 0x22] @ ''>'',
        ''            <h1>'' @ [CHR 0xC3, CHR 0xB0, CHR 0xC5, CHR 0xB8, CHR 0xE2, CHR 0x80, CHR 0x9C, CHR 0xC2, CHR 0xB6]
          @ '' You'' @ [CHR 0x27] @ ''re Offline</h1>'',
        ''            <p>Tests Hub is currently unavailable offline. Please check your internet connection.</p>'',
        ''            <p>Cached content is available for previously visited pages.</p>'',
        ''            <button onclick='' @ [CHR 0x22] @ ''location.reload()'' @ [CHR 0x22] @ ''>Retry</button>'',
        [CHR 0x09, CHR 0x09, CHR 0x09] @ ''</div>'',
        [CHR 0x09, CHR 0x09, CHR 0x09] @ ''</body>'',
        [CHR 0x09, CHR 0x09, CHR 0x09] @ ''</html>''])
     @ [CHR 0x09, CHR 0x09, CHR 0x09]"

text \<open>The retry control of the page: the button that reloads the location.\<close>

definition retryControl :: string where
  "retryControl =
     ''<button onclick='' @ [CHR 0x22] @ ''location.reload()'' @ [CHR 0x22] @ ''>Retry</button>''"

text \<open>
  \<open>new Response(body, init)\<close> has status 200 and an empty status text unless \<open>init\<close>
  gives them.
\<close>

definition offlineResponse :: "request \<Rightarrow> response" where
  "offlineResponse rq =
     (if acceptsHtml rq
      then \<lparr>status = 200, statusText = [],
            respHeaders = [(''content-type'', ''text/html'')], body = offlineHtml\<rparr>
      else \<lparr>status = 503, statusText = ''Service Unavailable'',
            respHeaders = [(''content-type'', ''text/plain'')], body = ''Offline''\<rparr>)"

subsection \<open>Writing into the dynamic cache\<close>

text \<open>
  The test \<open>estimate.usage / estimate.quota > 0.9\<close> on IEEE doubles, for a usage and a
  quota that are natural numbers (byte counts). The literal \<open>0.9\<close> is the double
  \<open>8106479329266893 / 2^53\<close>, whose significand is odd; the quotient is rounded to the
  nearest double, ties to even, so it exceeds that double exactly when the exact quotient
  is at least the midpoint \<open>16212958658533787 / 2^54\<close> to the next double. A zero quota
  gives \<open>Infinity\<close> for a positive usage and \<open>NaN\<close> (every comparison false) for
  \<open>0 / 0\<close>. Lemma \<open>overQuota_exact\<close> below shows that this is the comparison
  \<open>usage / quota > 9/10\<close> of exact arithmetic for every quota up to \<open>10^15\<close> bytes.
\<close>

definition overQuota :: "nat \<Rightarrow> nat \<Rightarrow> bool" where
  "overQuota usage quota =
     (if quota = 0 then 0 < usage
      else 16212958658533787 * quota \<le> usage * 2 ^ 54)"

text \<open>
  The result of \<open>cacheResponse\<close> is \<open>Some\<close> of the error when its promise rejects
  (the \<open>put\<close> is refused), with the state that the steps before have left.
\<close>

definition cacheResponse ::
    "env \<Rightarrow> request \<Rightarrow> response \<Rightarrow> sw_state \<Rightarrow> error option \<times> sw_state" where
  "cacheResponse e rq resp st =
     (let cs = cachesOpen DYNAMIC_CACHE_NAME (caches st);
          cs1 = (case storageEstimate e of
                   None \<Rightarrow> cs
                 | Some (usage, quota) \<Rightarrow>
                     if overQuota usage quota
                     then (case cacheKeys (cacheOf DYNAMIC_CACHE_NAME cs) of
                             [] \<Rightarrow> cs
                           | oldestKey # _ \<Rightarrow>
                               cacheModify DYNAMIC_CACHE_NAME (cacheDelete oldestKey) cs)
                     else cs)
      in case cachePut rq resp (cacheOf DYNAMIC_CACHE_NAME cs1) of
           Inl err \<Rightarrow> (Some err, st\<lparr>caches := cs1\<rparr>)
         | Inr c \<Rightarrow> (None, st\<lparr>caches := cacheModify DYNAMIC_CACHE_NAME (\<lambda>_. c) cs1\<rparr>))"

subsection \<open>Fetching\<close>

text \<open>
  \<open>fetch(request)\<close>: the request is logged and the network's answer returned;
  \<open>Inl TypeError\<close> is the rejected promise.
\<close>

definition networkResult :: "env \<Rightarrow> request \<Rightarrow> error + response" where
  "networkResult e rq = (case network e rq of None \<Rightarrow> Inl TypeError | Some r \<Rightarrow> Inr r)"

definition fetch :: "env \<Rightarrow> request \<Rightarrow> sw_state \<Rightarrow> (error + response) \<times> sw_state" where
  "fetch e rq st = (networkResult e rq, st\<lparr>fetchLog := fetchLog st @ [rq]\<rparr>)"

text \<open>
  \<open>fetchAndCache\<close> calls \<open>fetch\<close> and suspends at its \<open>await\<close>;
  \<open>fetchAndCacheResume\<close> is the rest of the function, run on the outcome of the fetch.
\<close>

definition fetchAndCacheResume ::
    "env \<Rightarrow> request \<Rightarrow> error + response \<Rightarrow> sw_state \<Rightarrow> (error + response) \<times> sw_state" where
  "fetchAndCacheResume e rq res st =
     (case res of
        Inl err \<Rightarrow> (Inl err, st)
      | Inr resp \<Rightarrow>
          if status resp = 200
          then (case cacheResponse e rq resp st of
                  (None, st1) \<Rightarrow> (Inr resp, st1)
                | (Some err, st1) \<Rightarrow> (Inl err, st1))
          else (Inr resp, st))"

definition fetchAndCache :: "env \<Rightarrow> request \<Rightarrow> sw_state \<Rightarrow> (error + response) \<times> sw_state" where
  "fetchAndCache e rq st =
     (case fetch e rq st of (res, st1) \<Rightarrow> fetchAndCacheResume e rq res st1)"

subsection \<open>The two strategies\<close>

text \<open>
  \<open>new Date(x)\<close> for a header value: \<open>null\<close> (the header is missing) converts to the
  number 0, the epoch; a string goes through the date parser. \<open>None\<close> is the invalid
  date, whose time value is \<open>NaN\<close>.
\<close>

definition newDate :: "env \<Rightarrow> string option \<Rightarrow> int option" where
  "newDate e h = (case h of None \<Rightarrow> Some 0 | Some s \<Rightarrow> dateParse e s)"

text \<open>
  The result of a strategy is what the handler passes to \<open>respondWith\<close> (\<open>None\<close> is
  \<open>undefined\<close>, the result of a \<open>caches.match\<close> that finds nothing), the state when
  that value is returned, and the requests for which \<open>fetchAndCache\<close> was called without
  \<open>await\<close>. Such a call issues its fetch at once, so the fetch is in the log of the
  returned state; the rest of it runs when the network answers (\<open>settle\<close>), after the
  response has been returned, and neither its result nor its rejection reaches the caller.
\<close>

definition cacheFirstStrategy ::
    "env \<Rightarrow> request \<Rightarrow> sw_state \<Rightarrow> response option \<times> sw_state \<times> request list" where
  "cacheFirstStrategy e rq st =
     (case cachesMatch (caches st) (reqUrl rq) of
        Some cachedResponse \<Rightarrow>
          (let cacheDate = newDate e (headersGet (respHeaders cachedResponse) ''date'');
               now = clock e
           in (case cacheDate of
                 None \<Rightarrow> (Some cachedResponse, st, [])
               | Some d \<Rightarrow>
                   if now - d > MAX_AGE_MS
                   then (Some cachedResponse, snd (fetch e rq st), [rq])
                   else (Some cachedResponse, st, [])))
      | None \<Rightarrow>
          (case fetchAndCache e rq st of
             (Inr resp, st1) \<Rightarrow> (Some resp, st1, [])
           | (Inl err, st1) \<Rightarrow>
               if acceptsHtml rq
               then (cachesMatch (caches st1) (resolveUrl e ''/''), st1, [])
               else (Some \<lparr>status = 408, statusText = [],
                           respHeaders = [(''content-type'', ''text/plain'')],
                           body = ''Network error occurred''\<rparr>, st1, [])))"

definition settle :: "env \<Rightarrow> request \<Rightarrow> sw_state \<Rightarrow> sw_state" where
  "settle e rq st = snd (fetchAndCacheResume e rq (networkResult e rq) st)"

text \<open>
  The \<open>catch\<close> block of \<open>networkFirstStrategy\<close>, entered when the fetch or the
  write into the cache rejects, and the strategy.
\<close>

definition networkFirstCatch ::
    "env \<Rightarrow> request \<Rightarrow> sw_state \<Rightarrow> response option \<times> sw_state" where
  "networkFirstCatch e rq st =
     (case cachesMatch (caches st) (reqUrl rq) of
        Some cachedResponse \<Rightarrow> (Some cachedResponse, st)
      | None \<Rightarrow>
          if acceptsHtml rq
          then (cachesMatch (caches st) (resolveUrl e ''/''), st)
          else (Some (offlineResponse rq), st))"

definition networkFirstStrategy ::
    "env \<Rightarrow> request \<Rightarrow> sw_state \<Rightarrow> response option \<times> sw_state" where
  "networkFirstStrategy e rq st =
     (case fetch e rq st of
        (Inr networkResponse, st1) \<Rightarrow>
          (case cacheResponse e rq networkResponse st1 of
             (None, st2) \<Rightarrow> (Some networkResponse, st2)
           | (Some err, st2) \<Rightarrow> networkFirstCatch e rq st2)
      | (Inl err, st1) \<Rightarrow> networkFirstCatch e rq st1)"

subsection \<open>The fetch handler\<close>

text \<open>
  \<open>None\<close>: the handler returns without \<open>respondWith\<close> and the request passes through.
\<close>

definition fetchHandler ::
    "env \<Rightarrow> request \<Rightarrow> sw_state \<Rightarrow> (response option \<times> sw_state \<times> request list) option" where
  "fetchHandler e rq st =
     (if reqMethod rq \<noteq> ''GET'' then None
      else if startsWith (reqUrl rq) ''chrome-extension://'' then None
      else if includesStr (reqUrl rq) ''/api/''
        then (case networkFirstStrategy e rq st of (r, st1) \<Rightarrow> Some (r, st1, []))
      else if acceptsHtml rq
        then (case networkFirstStrategy e rq st of (r, st1) \<Rightarrow> Some (r, st1, []))
      else Some (cacheFirstStrategy e rq st))"

subsection \<open>The install handler\<close>

text \<open>
  \<open>cache.addAll(urls)\<close> fetches every URL and rejects, writing nothing, when a fetch
  rejects, a response is not \<open>ok\<close>, or a \<open>put\<close> of a response would be refused;
  otherwise it puts every response under its URL.
\<close>

definition cacheAddAll :: "env \<Rightarrow> string list \<Rightarrow> cache \<Rightarrow> error + cache" where
  "cacheAddAll e urls c =
     (case those (map (\<lambda>u. network e (mkRequest e u)) urls) of
        None \<Rightarrow> Inl TypeError
      | Some rs \<Rightarrow>
          if list_all (\<lambda>(u, r). responseOk r \<and> putAccepts (mkRequest e u) r) (zip urls rs)
          then Inr (fold (\<lambda>(u, r) c'. cacheReplace (resolveUrl e u) r c') (zip urls rs) c)
          else Inl TypeError)"

text \<open>
  The handler opens the static cache, adds all the static assets and skips waiting. The
  boolean is whether the promise given to \<open>waitUntil\<close> fulfils (the install succeeds).
\<close>

definition install :: "env \<Rightarrow> sw_state \<Rightarrow> bool \<times> sw_state" where
  "install e st =
     (let cs = cachesOpen STATIC_CACHE_NAME (caches st);
          st1 = st\<lparr>caches := cs,
                   fetchLog := fetchLog st @ map (mkRequest e) STATIC_ASSETS,
                   skipWaitingCalled := True\<rparr>
      in case cacheAddAll e STATIC_ASSETS (cacheOf STATIC_CACHE_NAME cs) of
           Inl err \<Rightarrow> (False, st1)
         | Inr c \<Rightarrow> (True, st1\<lparr>caches := cacheModify STATIC_CACHE_NAME (\<lambda>_. c) cs\<rparr>))"

subsection \<open>Notifications and the push handler\<close>

text \<open>
  \<open>showNotification(title, options)\<close> appends the notification to those shown. The
  platform's permission check and its validation of the options are not modelled.
\<close>

definition showNotification ::
    "json option \<Rightarrow> (string \<Rightarrow> json option) \<Rightarrow> sw_state \<Rightarrow> sw_state" where
  "showNotification title options st =
     st\<lparr>notifications := notifications st @ [\<lparr>ntitle = title, noptions = options\<rparr>]\<rparr>"

text \<open>
  The own enumerable properties that the spread \<open>{...data}\<close> copies: the properties of
  an object, the indices of an array, the indices of a string (each a string of one
  character), nothing for a number, a boolean or \<open>null\<close>. An index is its decimal numeral.
\<close>

function decimal :: "nat \<Rightarrow> string" where
  "decimal n =
     (if n < 10 then [''0123456789'' ! n]
      else decimal (n div 10) @ [''0123456789'' ! (n mod 10)])"
  by pat_completeness auto
termination
  by (relation "measure id") auto

definition indexed :: "json list \<Rightarrow> (string \<times> json) list" where
  "indexed xs = zip (map decimal [0..<length xs]) xs"

fun spreadProps :: "json \<Rightarrow> (string \<times> json) list" where
  "spreadProps (JObject kvs) = kvs"
| "spreadProps (JArray xs) = indexed xs"
| "spreadProps (JString s) = indexed (map (\<lambda>c. JString [c]) s)"
| "spreadProps (JNumber n) = []"
| "spreadProps (JBool b) = []"
| "spreadProps JNull = []"

definition defaultNotificationData :: "env \<Rightarrow> string \<Rightarrow> json option" where
  "defaultNotificationData e =
     map_of
       [(''title'', JString ''Tests Hub''),
        (''body'', JString ''New tests and updates available!''),
        (''icon'', JString NOTIFICATION_ICON),
        (''badge'', JString NOTIFICATION_ICON),
        (''tag'', JString ''testshub-update''),
        (''data'', JObject [(''url'', JString ''/''),
                            (''timestamp'', JNumber (of_int (clock e)))])]"

text \<open>
  The push handler. \<open>event.data\<close> is \<open>None\<close> (\<open>null\<close>) or the text of the payload;
  \<open>event.data.json()\<close> is the JSON parser on that text, and \<open>event.data.text()\<close> the
  text itself.
\<close>

definition pushHandler :: "env \<Rightarrow> string option \<Rightarrow> sw_state \<Rightarrow> sw_state" where
  "pushHandler e eventData st =
     (let notificationData =
            (case eventData of
               None \<Rightarrow> defaultNotificationData e
             | Some payload \<Rightarrow>
                 (case jsonParse e payload of
                    Some d \<Rightarrow> defaultNotificationData e ++ map_of (spreadProps d)
                  | None \<Rightarrow> (defaultNotificationData e)(''body'' \<mapsto> JString payload)))
      in showNotification (notificationData ''title'') notificationData st)"

subsection \<open>The message handler\<close>

text \<open>
  \<open>event.data && event.data.type\<close>: a falsy value stops the test; of the other values
  only an object has a property \<open>type\<close>.
\<close>

fun truthy :: "json \<Rightarrow> bool" where
  "truthy JNull = False"
| "truthy (JBool b) = b"
| "truthy (JNumber n) = (n \<noteq> 0)"
| "truthy (JString s) = (s \<noteq> [])"
| "truthy (JArray xs) = True"
| "truthy (JObject kvs) = True"

definition messageType :: "json \<Rightarrow> json option" where
  "messageType d =
     (if truthy d then (case d of JObject kvs \<Rightarrow> map_of kvs ''type'' | _ \<Rightarrow> None)
      else None)"

text \<open>
  \<open>ports\<close> are the reply channels of the event; \<open>event.ports[0].postMessage\<close> throws
  a \<open>TypeError\<close> when the event carries none.
\<close>

definition messageHandler :: "json \<Rightarrow> nat list \<Rightarrow> sw_state \<Rightarrow> error + sw_state" where
  "messageHandler d ports st =
     (let st1 = (if messageType d = Some (JString ''SKIP_WAITING'')
                 then st\<lparr>skipWaitingCalled := True\<rparr> else st)
      in if messageType d = Some (JString ''GET_VERSION'')
         then (case ports of
                 [] \<Rightarrow> Inl TypeError
               | p # _ \<Rightarrow>
                   Inr (st1\<lparr>posted := posted st1 @
                          [(p, \<lparr>version = ''2.0.0'', cacheName = CACHE_NAME\<rparr>)]\<rparr>))
         else Inr st1)"

subsection \<open>Background work\<close>

definition pagesToUpdate :: "string list" where
  "pagesToUpdate =
     [''/'',
      ''/index.html'',
      ''/Tests_7th.html'',
      ''/Tests_8th.html'',
      ''/Tests_9th.html'',
      ''/Tests_1st_secondary.html'',
      ''/Tests_2nd_secondary.html'',
      ''/Tests_3rd_secondary.html'',
      ''/Tests_4th_secondary.html'']"

text \<open>
  One round of the loop of \<open>updateCachedContent\<close>, whose \<open>catch\<close> swallows the
  rejection of the fetch and of the \<open>put\<close>, then the whole function.
\<close>

definition updatePage :: "env \<Rightarrow> string \<Rightarrow> sw_state \<Rightarrow> sw_state" where
  "updatePage e u st =
     (case fetch e (mkRequest e u) st of
        (Inl err, st1) \<Rightarrow> st1
      | (Inr resp, st1) \<Rightarrow>
          if responseOk resp
          then (let cs = cachesOpen DYNAMIC_CACHE_NAME (caches st1)
                in case cachePut (mkRequest e u) resp (cacheOf DYNAMIC_CACHE_NAME cs) of
                     Inl err \<Rightarrow> st1\<lparr>caches := cs\<rparr>
                   | Inr c \<Rightarrow> st1\<lparr>caches := cacheModify DYNAMIC_CACHE_NAME (\<lambda>_. c) cs\<rparr>)
          else st1)"

definition updateCachedContent :: "env \<Rightarrow> sw_state \<Rightarrow> sw_state" where
  "updateCachedContent e st =
     showNotification (Some (JString ''Tests Hub Updated''))
       (map_of
          [(''body'', JString ''New content has been downloaded in background''),
           (''icon'', JString NOTIFICATION_ICON),
           (''tag'', JString ''content-update'')])
       (fold (updatePage e) pagesToUpdate st)"

text \<open>
  One round of the loop of \<open>cleanupOldCacheEntries\<close> on the dynamic cache, then the
  whole function. \<open>if (dateHeader)\<close> is false for a missing and for an empty header.
\<close>

definition cleanupEntry :: "env \<Rightarrow> string \<Rightarrow> cache \<Rightarrow> cache" where
  "cleanupEntry e k c =
     (case cacheMatch c k of
        None \<Rightarrow> c
      | Some resp \<Rightarrow>
          (case headersGet (respHeaders resp) ''date'' of
             None \<Rightarrow> c
           | Some dateHeader \<Rightarrow>
               if dateHeader = [] then c
               else (case newDate e (Some dateHeader) of
                       None \<Rightarrow> c
                     | Some cachedDate \<Rightarrow>
                         if clock e - cachedDate > MAX_AGE_MS then cacheDelete k c else c)))"

definition cleanupOldCacheEntries :: "env \<Rightarrow> sw_state \<Rightarrow> sw_state" where
  "cleanupOldCacheEntries e st =
     (let cs = cachesOpen DYNAMIC_CACHE_NAME (caches st);
          requests = cacheKeys (cacheOf DYNAMIC_CACHE_NAME cs)
      in st\<lparr>caches := cacheModify DYNAMIC_CACHE_NAME (fold (cleanupEntry e) requests) cs\<rparr>)"

section \<open>Example inputs\<close>

text \<open>
  Concrete environments, requests and states, on which the theorems below are
  instantiated and evaluated.
\<close>

definition exampleOrigin :: string where
  "exampleOrigin = ''https://testshub.example''"

definition shellResponse :: response where
  "shellResponse =
     \<lparr>status = 200, statusText = ''OK'',
      respHeaders = [(''content-type'', ''text/html''),
                     (''date'', ''Mon, 02 Nov 2026 07:00:00 GMT'')],
      body = ''<!DOCTYPE html><html><body>Tests Hub</body></html>''\<rparr>"

definition emptyState :: sw_state where
  "emptyState =
     \<lparr>caches = [], fetchLog = [], notifications = [], posted = [],
      skipWaitingCalled = False, clientsClaimed = False\<rparr>"

text \<open>
  The cache storage at a version cutover: the three caches of version 2.1.6 and the
  static cache that the install of version 2.1.7 has opened.
\<close>

definition cutoverState :: sw_state where
  "cutoverState =
     emptyState\<lparr>caches :=
       [(''tests-hub-v2.1.6'', []),
        (''tests-hub-static-v2.1.6'', [(''https://testshub.example/'', shellResponse)]),
        (''tests-hub-dynamic-v2.1.6'', []),
        (''tests-hub-static-v2.1.7'', [(''https://testshub.example/'', shellResponse)])]\<rparr>"

definition exampleNow :: int where
  "exampleNow = 1793689200000"

text \<open>A date parser that knows two dates: one day and ten days before \<open>exampleNow\<close>.\<close>

definition exampleDateParse :: "string \<Rightarrow> int option" where
  "exampleDateParse s =
     (if s = ''Mon, 02 Nov 2026 07:00:00 GMT'' then Some 1793602800000
      else if s = ''Sat, 24 Oct 2026 07:00:00 GMT'' then Some 1792825200000
      else None)"

text \<open>The payload \<open>{"title":"X","body":"Y"}\<close>, and a JSON parser that knows it.\<close>

definition titleBodyPayload :: string where
  "titleBodyPayload =
     ''{'' @ [CHR 0x22] @ ''title'' @ [CHR 0x22] @ '':'' @ [CHR 0x22] @ ''X'' @ [CHR 0x22]
     @ '','' @ [CHR 0x22] @ ''body'' @ [CHR 0x22] @ '':'' @ [CHR 0x22] @ ''Y'' @ [CHR 0x22] @ ''}''"

definition exampleJsonParse :: "string \<Rightarrow> json option" where
  "exampleJsonParse s =
     (if s = titleBodyPayload
      then Some (JObject [(''title'', JString ''X''), (''body'', JString ''Y'')])
      else None)"

definition noNetwork :: "request \<Rightarrow> response option" where
  "noNetwork rq = None"

definition offlineEnv :: env where
  "offlineEnv =
     \<lparr>origin = exampleOrigin, network = noNetwork, clock = exampleNow,
      storageEstimate = None, dateParse = exampleDateParse, jsonParse = exampleJsonParse\<rparr>"

definition manifestUrl :: string where
  "manifestUrl = ''https://testshub.example/manifest.json''"

definition manifestRequest :: request where
  "manifestRequest =
     \<lparr>reqMethod = ''GET'', reqUrl = manifestUrl, reqHeaders = [(''accept'', ''*/*'')]\<rparr>"

definition freshManifest :: response where
  "freshManifest =
     \<lparr>status = 200, statusText = ''OK'',
      respHeaders = [(''content-type'', ''application/json''),
                     (''date'', ''Mon, 02 Nov 2026 07:00:00 GMT'')],
      body = ''{}''\<rparr>"

definition staleManifest :: response where
  "staleManifest =
     \<lparr>status = 200, statusText = ''OK'',
      respHeaders = [(''content-type'', ''application/json''),
                     (''date'', ''Sat, 24 Oct 2026 07:00:00 GMT'')],
      body = ''{}''\<rparr>"

definition newManifest :: response where
  "newManifest =
     \<lparr>status = 200, statusText = ''OK'',
      respHeaders = [(''content-type'', ''application/json''),
                     (''date'', ''Tue, 03 Nov 2026 07:00:00 GMT'')],
      body = ''{ }''\<rparr>"

definition undatedManifest :: response where
  "undatedManifest =
     \<lparr>status = 200, statusText = ''OK'',
      respHeaders = [(''content-type'', ''application/json'')],
      body = ''{}''\<rparr>"

definition notFoundResponse :: response where
  "notFoundResponse =
     \<lparr>status = 404, statusText = ''Not Found'',
      respHeaders = [(''content-type'', ''text/html'')],
      body = ''<h1>404</h1>''\<rparr>"

definition partialResponse :: response where
  "partialResponse =
     \<lparr>status = 206, statusText = ''Partial Content'',
      respHeaders = [(''content-type'', ''text/html''),
                     (''content-range'', ''bytes 0-99/1000'')],
      body = ''<!DOCTYPE html>''\<rparr>"

definition missingUrl :: string where
  "missingUrl = ''https://testshub.example/missing.html''"

text \<open>
  A network that answers the manifest with a new copy and the missing page with 404,
  and is unreachable for every other request.
\<close>

definition exampleNetwork :: "request \<Rightarrow> response option" where
  "exampleNetwork rq =
     (if reqUrl rq = manifestUrl then Some newManifest
      else if reqUrl rq = missingUrl then Some notFoundResponse
      else None)"

definition onlineEnv :: env where
  "onlineEnv = offlineEnv\<lparr>network := exampleNetwork\<rparr>"

definition pressureEnv :: env where
  "pressureEnv = offlineEnv\<lparr>storageEstimate := Some (95, 100)\<rparr>"

definition partialNetwork :: "request \<Rightarrow> response option" where
  "partialNetwork rq = Some partialResponse"

definition partialEnv :: env where
  "partialEnv = pressureEnv\<lparr>network := partialNetwork\<rparr>"

definition documentRequest :: request where
  "documentRequest =
     \<lparr>reqMethod = ''GET'', reqUrl = ''https://testshub.example/Tests_7th.html'',
      reqHeaders = [(''accept'', ''text/html,application/xhtml+xml'')]\<rparr>"

definition missingRequest :: request where
  "missingRequest =
     \<lparr>reqMethod = ''GET'', reqUrl = missingUrl,
      reqHeaders = [(''accept'', ''text/html,application/xhtml+xml'')]\<rparr>"

text \<open>The state after the install: the static cache holds the shell.\<close>

definition shellState :: sw_state where
  "shellState =
     emptyState\<lparr>caches :=
       [(''tests-hub-static-v2.1.7'', [(''https://testshub.example/'', shellResponse)])]\<rparr>"

definition freshState :: sw_state where
  "freshState =
     emptyState\<lparr>caches :=
       [(''tests-hub-static-v2.1.7'', [(manifestUrl, freshManifest)])]\<rparr>"

definition staleStaticState :: sw_state where
  "staleStaticState =
     emptyState\<lparr>caches :=
       [(''tests-hub-static-v2.1.7'', [(manifestUrl, staleManifest)])]\<rparr>"

definition staleDynamicState :: sw_state where
  "staleDynamicState =
     emptyState\<lparr>caches :=
       [(''tests-hub-static-v2.1.7'', [(''https://testshub.example/'', shellResponse)]),
        (''tests-hub-dynamic-v2.1.7'', [(manifestUrl, staleManifest)])]\<rparr>"

definition undatedState :: sw_state where
  "undatedState =
     emptyState\<lparr>caches :=
       [(''tests-hub-dynamic-v2.1.7'', [(manifestUrl, undatedManifest)])]\<rparr>"

definition pressureState :: sw_state where
  "pressureState =
     emptyState\<lparr>caches :=
       [(''tests-hub-dynamic-v2.1.7'',
          [(''https://testshub.example/'', shellResponse), (manifestUrl, freshManifest)])]\<rparr>"

section \<open>Predicates of the properties\<close>

text \<open>
  A stored response has no parseable \<open>date\<close> header: the header is missing, or the
  date parser rejects it.
\<close>

definition undatable :: "env \<Rightarrow> response \<Rightarrow> bool" where
  "undatable e r =
     (case headersGet (respHeaders r) ''date'' of
        None \<Rightarrow> True
      | Some h \<Rightarrow> dateParse e h = None)"

text \<open>Every entry of a cache, and of every cache of the storage, is a 2xx response.\<close>

definition entriesOk :: "cache \<Rightarrow> bool" where
  "entriesOk c = list_all (\<lambda>(k, r). responseOk r) c"

definition storedOk :: "cacheStorage \<Rightarrow> bool" where
  "storedOk cs = list_all (\<lambda>(n, c). entriesOk c) cs"

section \<open>Properties\<close>

lemma activate_fold_filter:
  "fold (\<lambda>cacheName cs.
          if cacheName \<noteq> CACHE_NAME \<and>
             cacheName \<noteq> STATIC_CACHE_NAME \<and>
             cacheName \<noteq> DYNAMIC_CACHE_NAME
          then cachesDelete cacheName cs
          else cs) ns cs
   = filter (\<lambda>(n, _). isCurrentCacheName n \<or> n \<notin> set ns) cs"
proof (induction ns arbitrary: cs)
  case Nil
  then show ?case by simp
next
  case (Cons a ns)
  show ?case
    unfolding fold_simps Cons.IH
    by (auto simp: cachesDelete_def isCurrentCacheName_def intro!: filter_cong)
qed

subsection \<open>Activation\<close>

lemma activate_caches:
  "caches (activate st) = filter (\<lambda>(n, _). isCurrentCacheName n) (caches st)"
  unfolding activate_def Let_def activate_fold_filter
  by (force simp: cachesKeys_def intro!: filter_cong)

lemma cachesKeys_filter:
  "cachesKeys (filter (\<lambda>(n, _). P n) cs) = filter P (cachesKeys cs)"
  by (induction cs) (auto simp: cachesKeys_def)

text \<open>
  C3, as stated: after the activate handler, enumerating the cache namespaces yields
  exactly the three current ones, for every starting set. It fails at the version
  cutover: of the three current names only the static cache exists before activation,
  and activation creates none, so one namespace remains and not three.
\<close>

theorem activate_three_counterexample:
  "set (cachesKeys (caches (activate cutoverState)))
   \<noteq> {CACHE_NAME, STATIC_CACHE_NAME, DYNAMIC_CACHE_NAME}"
proof -
  have "cachesKeys (caches (activate cutoverState)) = [''tests-hub-static-v2.1.7'']"
    unfolding activate_caches cachesKeys_filter
    by (simp add: cutoverState_def emptyState_def cachesKeys_def isCurrentCacheName_def
        CACHE_NAME_def STATIC_CACHE_NAME_def DYNAMIC_CACHE_NAME_def)
  then show ?thesis
    by (simp add: CACHE_NAME_def STATIC_CACHE_NAME_def DYNAMIC_CACHE_NAME_def)
qed

text \<open>
  C3, amended: after the activate handler, the cache namespaces that remain are exactly
  the namespaces that existed before and bear one of the three current names, with
  their entries and in their order; every other namespace, so every one bearing a prior
  version tag, is deleted, for every starting set. Activation creates no namespace. The
  clients are claimed.
\<close>

theorem activate_keeps_current_only:
  "caches (activate st) = filter (\<lambda>(n, _). isCurrentCacheName n) (caches st)
   \<and> cachesKeys (caches (activate st)) = filter isCurrentCacheName (cachesKeys (caches st))
   \<and> set (cachesKeys (caches (activate st)))
       \<subseteq> {CACHE_NAME, STATIC_CACHE_NAME, DYNAMIC_CACHE_NAME}
   \<and> clientsClaimed (activate st)"
proof -
  have keys: "cachesKeys (caches (activate st)) = filter isCurrentCacheName (cachesKeys (caches st))"
    by (simp only: activate_caches cachesKeys_filter)
  have "set (filter isCurrentCacheName (cachesKeys (caches st)))
        \<subseteq> {CACHE_NAME, STATIC_CACHE_NAME, DYNAMIC_CACHE_NAME}"
    by (auto simp: isCurrentCacheName_def)
  moreover have "clientsClaimed (activate st)"
    by (simp add: activate_def Let_def)
  ultimately show ?thesis
    using keys activate_caches by simp
qed

subsection \<open>Installation\<close>

lemma fold_put_split:
  "fold (\<lambda>(u, r) c'. cacheReplace (g u) r c') kvs c
   = filter (\<lambda>(k, _). urlKey k \<notin> urlKey ` g ` fst ` set kvs) c @ fold (\<lambda>(u, r) c'. cacheReplace (g u) r c') kvs []"
proof (induction kvs arbitrary: c)
  case Nil
  then show ?case by simp
next
  case (Cons x kvs)
  obtain u r where x: "x = (u, r)" by (cases x)
  have "fold (\<lambda>(u, r) c'. cacheReplace (g u) r c') (x # kvs) c
        = fold (\<lambda>(u, r) c'. cacheReplace (g u) r c') kvs (cacheReplace (g u) r c)"
    by (simp add: x)
  also have "\<dots> = filter (\<lambda>(k, _). urlKey k \<notin> urlKey ` g ` fst ` set kvs) (cacheReplace (g u) r c)
                  @ fold (\<lambda>(u, r) c'. cacheReplace (g u) r c') kvs []"
    by (rule Cons.IH)
  finally have lhs: "fold (\<lambda>(u, r) c'. cacheReplace (g u) r c') (x # kvs) c
        = filter (\<lambda>(k, _). urlKey k \<notin> urlKey ` g ` fst ` set kvs) (cacheReplace (g u) r c)
                  @ fold (\<lambda>(u, r) c'. cacheReplace (g u) r c') kvs []" .
  have "fold (\<lambda>(u, r) c'. cacheReplace (g u) r c') (x # kvs) []
        = fold (\<lambda>(u, r) c'. cacheReplace (g u) r c') kvs [(g u, r)]"
    by (simp add: x cacheReplace_def)
  also have "\<dots> = filter (\<lambda>(k, _). urlKey k \<notin> urlKey ` g ` fst ` set kvs) [(g u, r)]
                  @ fold (\<lambda>(u, r) c'. cacheReplace (g u) r c') kvs []"
    by (rule Cons.IH)
  finally have rhs: "fold (\<lambda>(u, r) c'. cacheReplace (g u) r c') (x # kvs) []
        = filter (\<lambda>(k, _). urlKey k \<notin> urlKey ` g ` fst ` set kvs) [(g u, r)]
                  @ fold (\<lambda>(u, r) c'. cacheReplace (g u) r c') kvs []" .
  have flt: "filter (\<lambda>(k, _). urlKey k \<notin> urlKey ` g ` fst ` set kvs) (cacheReplace (g u) r c)
     = filter (\<lambda>(k, _). urlKey k \<notin> urlKey ` g ` fst ` set (x # kvs)) c
       @ filter (\<lambda>(k, _). urlKey k \<notin> urlKey ` g ` fst ` set kvs) [(g u, r)]"
    by (auto simp: cacheReplace_def x intro!: filter_cong)
  show ?case
    unfolding lhs rhs flt by simp
qed

lemma fold_put_keys:
  "fst ` set (fold (\<lambda>(u, r) c'. cacheReplace (g u) r c') kvs c) \<subseteq> fst ` set c \<union> g ` fst ` set kvs"
proof (induction kvs arbitrary: c)
  case Nil
  then show ?case by simp
next
  case (Cons x kvs)
  obtain u r where x: "x = (u, r)" by (cases x)
  have "fst ` set (cacheReplace (g u) r c) \<subseteq> fst ` set c \<union> {g u}"
    by (auto simp: cacheReplace_def)
  with Cons.IH [of "cacheReplace (g u) r c"] show ?case
    by (auto simp: x)
qed

lemma fold_put_idem:
  "fold (\<lambda>(u, r) c'. cacheReplace (g u) r c') kvs (fold (\<lambda>(u, r) c'. cacheReplace (g u) r c') kvs c)
   = fold (\<lambda>(u, r) c'. cacheReplace (g u) r c') kvs c"
proof -
  let ?f = "fold (\<lambda>(u, r) c'. cacheReplace (g u) r c') kvs"
  let ?P = "\<lambda>(k, _::response). urlKey k \<notin> urlKey ` g ` fst ` set kvs"
  have keys: "fst ` set (?f []) \<subseteq> g ` fst ` set kvs"
    using fold_put_keys [of g kvs "[]"] by simp
  have none: "filter ?P (?f []) = []"
    using keys by (force simp: filter_empty_conv)
  have eq: "?f c = filter ?P c @ ?f []"
    by (rule fold_put_split)
  have kept: "filter ?P (?f c) = filter ?P c"
    by (subst eq) (simp add: none)
  have "?f (?f c) = filter ?P (?f c) @ ?f []"
    by (rule fold_put_split)
  also have "\<dots> = filter ?P c @ ?f []"
    by (simp only: kept)
  also have "\<dots> = ?f c"
    by (rule eq [symmetric])
  finally show ?thesis .
qed

lemma cacheAddAll_idem:
  "cacheAddAll e urls c = Inr c' \<Longrightarrow> cacheAddAll e urls c' = Inr c'"
  by (auto simp: cacheAddAll_def fold_put_idem split: option.splits if_splits)

lemma cachesOpen_present: "n \<in> set (cachesKeys (cachesOpen n cs))"
  by (simp add: cachesOpen_def cachesKeys_def)

lemma cachesOpen_idem: "n \<in> set (cachesKeys cs) \<Longrightarrow> cachesOpen n cs = cs"
  by (simp add: cachesOpen_def)

lemma cachesKeys_cacheModify: "cachesKeys (cacheModify n f cs) = cachesKeys cs"
  by (induction cs) (auto simp: cachesKeys_def cacheModify_def)

lemma cacheOf_cacheModify_same:
  "n \<in> set (cachesKeys cs) \<Longrightarrow> cacheOf n (cacheModify n f cs) = f (cacheOf n cs)"
  by (induction cs) (auto simp: cachesKeys_def cacheModify_def cacheOf_def)


lemma cacheModify_const_twice:
  "cacheModify n (\<lambda>_. c) (cacheModify n (\<lambda>_. c) cs) = cacheModify n (\<lambda>_. c) cs"
  by (induction cs) (auto simp: cacheModify_def)

text \<open>
  C9: running the install step twice, against the same network (a fixed mapping from
  the asset URLs to the fetched responses), leaves the same cache storage as running it
  once, so in particular the same contents of the static namespace, and the second run
  succeeds exactly when the first does.
\<close>

theorem install_idempotent:
  "caches (snd (install e (snd (install e st)))) = caches (snd (install e st))
   \<and> cacheOf STATIC_CACHE_NAME (caches (snd (install e (snd (install e st)))))
       = cacheOf STATIC_CACHE_NAME (caches (snd (install e st)))
   \<and> fst (install e (snd (install e st))) = fst (install e st)"
proof -
  let ?cs = "cachesOpen STATIC_CACHE_NAME (caches st)"
  have "caches (snd (install e (snd (install e st)))) = caches (snd (install e st))
        \<and> fst (install e (snd (install e st))) = fst (install e st)"
  proof (cases "cacheAddAll e STATIC_ASSETS (cacheOf STATIC_CACHE_NAME ?cs)")
    case (Inl err)
    have one: "caches (snd (install e st)) = ?cs" "fst (install e st) = False"
      using Inl by (simp_all add: install_def Let_def)
    have again: "cachesOpen STATIC_CACHE_NAME ?cs = ?cs"
      by (rule cachesOpen_idem [OF cachesOpen_present])
    show ?thesis
      using Inl one again by (simp add: install_def Let_def)
  next
    case (Inr c)
    let ?cs1 = "cacheModify STATIC_CACHE_NAME (\<lambda>_. c) ?cs"
    have one: "caches (snd (install e st)) = ?cs1" "fst (install e st) = True"
      using Inr by (simp_all add: install_def Let_def)
    have present: "STATIC_CACHE_NAME \<in> set (cachesKeys ?cs1)"
      by (simp add: cachesKeys_cacheModify cachesOpen_present)
    have again: "cachesOpen STATIC_CACHE_NAME ?cs1 = ?cs1"
      by (rule cachesOpen_idem [OF present])
    have "cacheOf STATIC_CACHE_NAME ?cs1 = c"
      by (simp add: cacheOf_cacheModify_same cachesOpen_present)
    then have add: "cacheAddAll e STATIC_ASSETS (cacheOf STATIC_CACHE_NAME ?cs1) = Inr c"
      using cacheAddAll_idem [OF Inr] by simp
    show ?thesis
      using one again add by (simp add: install_def Let_def cacheModify_const_twice)
  qed
  then show ?thesis by simp
qed

subsection \<open>The quota guard\<close>

lemma cacheMatch_cacheReplace:
  "cacheMatch (cacheReplace k r c) k' = (if urlKey k' = urlKey k then Some r else cacheMatch c k')"
proof -
  have "map_of (map (\<lambda>(k', r). (urlKey k', r)) (filter (\<lambda>(k', _). urlKey k' \<noteq> urlKey k) c)) (urlKey k')
        = (if urlKey k' = urlKey k then None else map_of (map (\<lambda>(k', r). (urlKey k', r)) c) (urlKey k'))"
    by (induction c) auto
  then show ?thesis
    by (auto simp: cacheMatch_def cacheReplace_def map_add_def split: option.splits)
qed

lemma cacheDelete_head:
  "distinct (map urlKey (cacheKeys ((k0, r0) # rest))) \<Longrightarrow>
     cacheDelete k0 ((k0, r0) # rest) = rest"
  by (force simp: cacheDelete_def cacheKeys_def filter_id_conv)


lemma cacheOf_nonempty_present: "cacheOf n cs = x # xs \<Longrightarrow> n \<in> set (cachesKeys cs)"
  by (auto simp: cacheOf_def cachesKeys_def split: option.splits
      dest: map_of_SomeD intro: rev_image_eqI)

lemma cacheOf_cachesOpen: "cacheOf n (cachesOpen n cs) = cacheOf n cs"
proof (cases "n \<in> set (cachesKeys cs)")
  case True
  then show ?thesis by (simp add: cachesOpen_idem)
next
  case False
  then have "map_of cs n = None"
    by (simp add: cachesKeys_def map_of_eq_None_iff)
  then show ?thesis
    using False by (simp add: cachesOpen_def cacheOf_def map_add_def)
qed

text \<open>
  For a quota of at most \<open>10^15\<close> bytes the test on doubles is the comparison of exact
  arithmetic: the utilisation exceeds nine tenths.
\<close>

lemma overQuota_exact:
  assumes "0 < quota" "quota \<le> 10 ^ 15"
  shows "overQuota usage quota = (9 * quota < 10 * usage)"
  using assms by (simp add: overQuota_def) arith

text \<open>
  Under pressure, with a dynamic cache that is not empty: the storage before the
  \<open>put\<close> is the one without the oldest entry, whether the \<open>put\<close> is accepted or not.
\<close>

lemma cacheResponse_under_pressure:
  assumes est: "storageEstimate e = Some (usage, quota)"
      and over: "overQuota usage quota"
      and dyn: "cacheOf DYNAMIC_CACHE_NAME (caches st) = (k0, r0) # rest"
      and dist: "distinct (map urlKey (cacheKeys ((k0, r0) # rest)))"
  shows "cacheResponse e rq resp st =
           (let cs1 = cacheModify DYNAMIC_CACHE_NAME (cacheDelete k0) (caches st)
            in if putAccepts rq resp
               then (None, st\<lparr>caches := cacheModify DYNAMIC_CACHE_NAME
                                           (\<lambda>_. cacheReplace (reqUrl rq) resp rest) cs1\<rparr>)
               else (Some TypeError, st\<lparr>caches := cs1\<rparr>))"
    and "cacheOf DYNAMIC_CACHE_NAME (cacheModify DYNAMIC_CACHE_NAME (cacheDelete k0) (caches st))
           = rest"
proof -
  have present: "DYNAMIC_CACHE_NAME \<in> set (cachesKeys (caches st))"
    by (rule cacheOf_nonempty_present [OF dyn])
  have opened: "cachesOpen DYNAMIC_CACHE_NAME (caches st) = caches st"
    by (rule cachesOpen_idem [OF present])
  have del: "cacheDelete k0 ((k0, r0) # rest) = rest"
    by (rule cacheDelete_head [OF dist])
  show evicted: "cacheOf DYNAMIC_CACHE_NAME
          (cacheModify DYNAMIC_CACHE_NAME (cacheDelete k0) (caches st)) = rest"
    by (simp add: cacheOf_cacheModify_same present dyn del)
  show "cacheResponse e rq resp st =
           (let cs1 = cacheModify DYNAMIC_CACHE_NAME (cacheDelete k0) (caches st)
            in if putAccepts rq resp
               then (None, st\<lparr>caches := cacheModify DYNAMIC_CACHE_NAME
                                           (\<lambda>_. cacheReplace (reqUrl rq) resp rest) cs1\<rparr>)
               else (Some TypeError, st\<lparr>caches := cs1\<rparr>))"
    by (simp add: cacheResponse_def Let_def opened est over dyn cacheKeys_def evicted
        cachePut_def)
qed



text \<open>Without pressure, or without a storage estimate, nothing is deleted.\<close>

lemma cacheResponse_no_pressure:
  assumes "storageEstimate e = None
           \<or> (\<exists>usage quota. storageEstimate e = Some (usage, quota) \<and> \<not> overQuota usage quota)"
      and "putAccepts rq resp"
  shows "cacheOf DYNAMIC_CACHE_NAME (caches (snd (cacheResponse e rq resp st)))
           = cacheReplace (reqUrl rq) resp (cacheOf DYNAMIC_CACHE_NAME (caches st))"
proof -
  have "caches (snd (cacheResponse e rq resp st))
        = cacheModify DYNAMIC_CACHE_NAME
            (\<lambda>_. cacheReplace (reqUrl rq) resp (cacheOf DYNAMIC_CACHE_NAME (caches st)))
            (cachesOpen DYNAMIC_CACHE_NAME (caches st))"
    using assms by (auto simp: cacheResponse_def Let_def cachePut_def cacheOf_cachesOpen)
  then show ?thesis
    by (simp add: cacheOf_cacheModify_same cachesOpen_present)
qed




subsection \<open>The cache-first strategy\<close>

lemma fetch_failed:
  "network e rq = None \<Longrightarrow>
     fetch e rq st = (Inl TypeError, st\<lparr>fetchLog := fetchLog st @ [rq]\<rparr>)"
  by (simp add: fetch_def networkResult_def)

lemma fetch_answer:
  "network e rq = Some r \<Longrightarrow> fetch e rq st = (Inr r, st\<lparr>fetchLog := fetchLog st @ [rq]\<rparr>)"
  by (simp add: fetch_def networkResult_def)

lemma settle_failed: "network e rq = None \<Longrightarrow> settle e rq st = st"
  by (simp add: settle_def fetchAndCacheResume_def networkResult_def)

lemma settle_not_200:
  "network e rq = Some r \<Longrightarrow> status r \<noteq> 200 \<Longrightarrow> settle e rq st = st"
  by (simp add: settle_def fetchAndCacheResume_def networkResult_def)

lemma settle_200:
  "network e rq = Some r \<Longrightarrow> status r = 200 \<Longrightarrow>
     settle e rq st = snd (cacheResponse e rq r st)"
  by (simp add: settle_def fetchAndCacheResume_def networkResult_def split: prod.splits option.splits)

text \<open>
  The shape of \<open>cacheResponse\<close>: the dynamic cache is opened, at most one key is
  deleted from it, and an accepted response is put into what is left.
\<close>

lemma cacheResponse_shape:
  "\<exists>f. (f = (\<lambda>c. c) \<or> (\<exists>k. f = cacheDelete k))
       \<and> cacheResponse e rq resp st
           = (let cs1 = cacheModify DYNAMIC_CACHE_NAME f
                          (cachesOpen DYNAMIC_CACHE_NAME (caches st))
              in if putAccepts rq resp
                 then (None, st\<lparr>caches := cacheModify DYNAMIC_CACHE_NAME
                          (\<lambda>_. cacheReplace (reqUrl rq) resp (cacheOf DYNAMIC_CACHE_NAME cs1))
                          cs1\<rparr>)
                 else (Some TypeError, st\<lparr>caches := cs1\<rparr>))"
proof -
  have id: "\<And>cs. cacheModify DYNAMIC_CACHE_NAME (\<lambda>c. c) cs = cs"
    by (induct_tac cs) (auto simp: cacheModify_def)
  show ?thesis
  proof (cases "storageEstimate e")
    case None
    then show ?thesis
      by (intro exI [of _ "\<lambda>c. c"]) (simp add: cacheResponse_def Let_def id cachePut_def)
  next
    case (Some p)
    obtain usage quota where p: "p = (usage, quota)" by (cases p)
    show ?thesis
    proof (cases "overQuota usage quota")
      case False
      then show ?thesis
        using Some p
        by (intro exI [of _ "\<lambda>c. c"]) (simp add: cacheResponse_def Let_def id cachePut_def)
    next
      case True
      show ?thesis
      proof (cases "cacheKeys (cacheOf DYNAMIC_CACHE_NAME
                                 (cachesOpen DYNAMIC_CACHE_NAME (caches st)))")
        case Nil
        then show ?thesis
          using Some p True
          by (intro exI [of _ "\<lambda>c. c"]) (simp add: cacheResponse_def Let_def id cachePut_def)
      next
        case (Cons k ks)
        then show ?thesis
          using Some p True
          by (intro exI [of _ "cacheDelete k"]) (auto simp: cacheResponse_def Let_def cachePut_def)
      qed
    qed
  qed
qed

lemma cacheResponse_accepted:
  assumes "putAccepts rq resp"
  shows "\<exists>cs1. cachesKeys cs1 = cachesKeys (cachesOpen DYNAMIC_CACHE_NAME (caches st))
           \<and> (\<forall>k. (\<forall>(m, c) \<in> set (caches st). m \<noteq> DYNAMIC_CACHE_NAME \<longrightarrow> cacheMatch c k = None)
                 \<longrightarrow> (\<forall>(m, c) \<in> set cs1. m \<noteq> DYNAMIC_CACHE_NAME \<longrightarrow> cacheMatch c k = None))
           \<and> cacheResponse e rq resp st
               = (None, st\<lparr>caches := cacheModify DYNAMIC_CACHE_NAME
                          (\<lambda>_. cacheReplace (reqUrl rq) resp (cacheOf DYNAMIC_CACHE_NAME cs1))
                          cs1\<rparr>)"
proof -
  obtain f where shape: "cacheResponse e rq resp st
           = (let cs1 = cacheModify DYNAMIC_CACHE_NAME f
                          (cachesOpen DYNAMIC_CACHE_NAME (caches st))
              in if putAccepts rq resp
                 then (None, st\<lparr>caches := cacheModify DYNAMIC_CACHE_NAME
                          (\<lambda>_. cacheReplace (reqUrl rq) resp (cacheOf DYNAMIC_CACHE_NAME cs1))
                          cs1\<rparr>)
                 else (Some TypeError, st\<lparr>caches := cs1\<rparr>))"
    using cacheResponse_shape by blast
  let ?cs1 = "cacheModify DYNAMIC_CACHE_NAME f (cachesOpen DYNAMIC_CACHE_NAME (caches st))"
  have keys: "cachesKeys ?cs1 = cachesKeys (cachesOpen DYNAMIC_CACHE_NAME (caches st))"
    by (rule cachesKeys_cacheModify)
  have others: "\<forall>k. (\<forall>(m, c) \<in> set (caches st). m \<noteq> DYNAMIC_CACHE_NAME \<longrightarrow> cacheMatch c k = None)
                 \<longrightarrow> (\<forall>(m, c) \<in> set ?cs1. m \<noteq> DYNAMIC_CACHE_NAME \<longrightarrow> cacheMatch c k = None)"
    by (auto simp: cacheModify_def cachesOpen_def split: if_splits)
  show ?thesis
    using assms keys others shape by (intro exI [of _ ?cs1]) (simp add: Let_def)
qed

lemma cacheResponse_stores:
  assumes "putAccepts rq resp"
  shows "fst (cacheResponse e rq resp st) = None"
    and "cacheMatch (cacheOf DYNAMIC_CACHE_NAME (caches (snd (cacheResponse e rq resp st))))
           (reqUrl rq) = Some resp"
proof -
  obtain cs1 where keys: "cachesKeys cs1 = cachesKeys (cachesOpen DYNAMIC_CACHE_NAME (caches st))"
    and run: "cacheResponse e rq resp st
               = (None, st\<lparr>caches := cacheModify DYNAMIC_CACHE_NAME
                          (\<lambda>_. cacheReplace (reqUrl rq) resp (cacheOf DYNAMIC_CACHE_NAME cs1))
                          cs1\<rparr>)"
    using cacheResponse_accepted [OF assms] by blast
  have present: "DYNAMIC_CACHE_NAME \<in> set (cachesKeys cs1)"
    by (simp add: keys cachesOpen_present)
  show "fst (cacheResponse e rq resp st) = None"
    by (simp add: run)
  show "cacheMatch (cacheOf DYNAMIC_CACHE_NAME (caches (snd (cacheResponse e rq resp st))))
           (reqUrl rq) = Some resp"
    by (simp add: run cacheOf_cacheModify_same present cacheMatch_cacheReplace)
qed

lemma cachesMatch_put_first:
  assumes "n \<in> set (cachesKeys cs)"
      and "\<forall>(m, c) \<in> set cs. m \<noteq> n \<longrightarrow> cacheMatch c k = None"
      and "cacheMatch c' k = Some r"
  shows "cachesMatch (cacheModify n (\<lambda>_. c') cs) k = Some r"
  using assms(1,2)
proof (induction cs)
  case Nil
  then show ?case by (simp add: cachesKeys_def)
next
  case (Cons x cs)
  obtain m c where x: "x = (m, c)" by (cases x)
  show ?case
  proof (cases "m = n")
    case True
    then show ?thesis
      by (simp add: x cacheModify_def assms(3))
  next
    case False
    then have "n \<in> set (cachesKeys cs)" "cacheMatch c k = None"
      using Cons.prems by (auto simp: x cachesKeys_def)
    moreover have "\<forall>(m, c) \<in> set cs. m \<noteq> n \<longrightarrow> cacheMatch c k = None"
      using Cons.prems by simp
    ultimately show ?thesis
      using Cons.IH False by (simp add: x cacheModify_def)
  qed
qed

lemma cacheResponse_served:
  assumes "putAccepts rq resp"
      and "\<forall>(m, c) \<in> set (caches st). m \<noteq> DYNAMIC_CACHE_NAME \<longrightarrow> cacheMatch c (reqUrl rq) = None"
  shows "cachesMatch (caches (snd (cacheResponse e rq resp st))) (reqUrl rq) = Some resp"
proof -
  obtain cs1 where keys: "cachesKeys cs1 = cachesKeys (cachesOpen DYNAMIC_CACHE_NAME (caches st))"
    and others: "\<forall>k. (\<forall>(m, c) \<in> set (caches st). m \<noteq> DYNAMIC_CACHE_NAME \<longrightarrow> cacheMatch c k = None)
                 \<longrightarrow> (\<forall>(m, c) \<in> set cs1. m \<noteq> DYNAMIC_CACHE_NAME \<longrightarrow> cacheMatch c k = None)"
    and run: "cacheResponse e rq resp st
               = (None, st\<lparr>caches := cacheModify DYNAMIC_CACHE_NAME
                          (\<lambda>_. cacheReplace (reqUrl rq) resp (cacheOf DYNAMIC_CACHE_NAME cs1))
                          cs1\<rparr>)"
    using cacheResponse_accepted [OF assms(1)] by blast
  have present: "DYNAMIC_CACHE_NAME \<in> set (cachesKeys cs1)"
    by (simp add: keys cachesOpen_present)
  have free: "\<forall>(m, c) \<in> set cs1. m \<noteq> DYNAMIC_CACHE_NAME \<longrightarrow> cacheMatch c (reqUrl rq) = None"
    using others assms(2) by blast
  show ?thesis
    unfolding run snd_conv
    by (simp add: cachesMatch_put_first [OF present free] cacheMatch_cacheReplace)
qed

lemma cacheFirst_hit:
  assumes "cachesMatch (caches st) (reqUrl rq) = Some cached"
  shows "cacheFirstStrategy e rq st =
           (case newDate e (headersGet (respHeaders cached) ''date'') of
              None \<Rightarrow> (Some cached, st, [])
            | Some d \<Rightarrow>
                if clock e - d > MAX_AGE_MS
                then (Some cached, st\<lparr>fetchLog := fetchLog st @ [rq]\<rparr>, [rq])
                else (Some cached, st, []))"
  using assms by (simp add: cacheFirstStrategy_def Let_def fetch_def split: option.splits)

text \<open>The classification of the fetch handler.\<close>

lemma fetchHandler_document:
  assumes "reqMethod rq = ''GET''"
      and "\<not> startsWith (reqUrl rq) ''chrome-extension://''"
      and "acceptsHtml rq"
  shows "fetchHandler e rq st =
           Some (fst (networkFirstStrategy e rq st), snd (networkFirstStrategy e rq st), [])"
  using assms by (simp add: fetchHandler_def split: prod.splits)

lemma fetchHandler_asset:
  assumes "reqMethod rq = ''GET''"
      and "\<not> startsWith (reqUrl rq) ''chrome-extension://''"
      and "\<not> includesStr (reqUrl rq) ''/api/''"
      and "\<not> acceptsHtml rq"
  shows "fetchHandler e rq st = Some (cacheFirstStrategy e rq st)"
  using assms by (simp add: fetchHandler_def)

text \<open>
  C5: for a request whose cached entry has an age (the clock minus the time of the
  entry's \<open>date\<close> header) of at most seven days, \<open>cacheFirstStrategy\<close> returns the
  stored response itself, status, headers and body as stored, the state is the one it
  started from (nothing is fetched, nothing is written), and no background fetch is
  started. For a GET request that the fetch handler classifies as an asset this is the
  handler's answer.
\<close>

theorem cacheFirst_fresh_no_network:
  assumes "cachesMatch (caches st) (reqUrl rq) = Some cached"
      and "newDate e (headersGet (respHeaders cached) ''date'') = Some t"
      and "clock e - t \<le> MAX_AGE_MS"
  shows "cacheFirstStrategy e rq st = (Some cached, st, [])
         \<and> (reqMethod rq = ''GET'' \<and> \<not> startsWith (reqUrl rq) ''chrome-extension://''
              \<and> \<not> includesStr (reqUrl rq) ''/api/'' \<and> \<not> acceptsHtml rq
              \<longrightarrow> fetchHandler e rq st = Some (Some cached, st, []))"
  using assms by (simp add: cacheFirst_hit fetchHandler_def)

theorem cacheFirst_fresh_no_network_witness:
  "cachesMatch (caches freshState) (reqUrl manifestRequest) = Some freshManifest
   \<and> newDate offlineEnv (headersGet (respHeaders freshManifest) ''date'') = Some 1793602800000
   \<and> clock offlineEnv - 1793602800000 \<le> MAX_AGE_MS
   \<and> cacheFirstStrategy offlineEnv manifestRequest freshState = (Some freshManifest, freshState, [])
   \<and> fetchHandler offlineEnv manifestRequest freshState = Some (Some freshManifest, freshState, [])"
proof -
  have m: "cachesMatch (caches freshState) (reqUrl manifestRequest) = Some freshManifest"
    by (simp add: freshState_def emptyState_def manifestRequest_def cacheMatch_def)
  have d: "newDate offlineEnv (headersGet (respHeaders freshManifest) ''date'') = Some 1793602800000"
    by (simp add: newDate_def headersGet_def freshManifest_def offlineEnv_def exampleDateParse_def)
  have f: "clock offlineEnv - 1793602800000 \<le> MAX_AGE_MS"
    by (simp add: offlineEnv_def exampleNow_def MAX_AGE_MS_def MAX_AGE_DAYS_def)
  have cls: "reqMethod manifestRequest = ''GET''
      \<and> \<not> startsWith (reqUrl manifestRequest) ''chrome-extension://''
      \<and> \<not> includesStr (reqUrl manifestRequest) ''/api/'' \<and> \<not> acceptsHtml manifestRequest"
    by (simp add: manifestRequest_def manifestUrl_def startsWith_def acceptsHtml_def headersGet_def)
  show ?thesis
    using cacheFirst_fresh_no_network [OF m d f] m d f cls by simp
qed

text \<open>
  What holds of a stale entry: the strategy returns the stale response with no change
  but the fetch it has issued, whatever the network does, and starts one background
  \<open>fetchAndCache\<close>. When that fetch is rejected or answers with a status other than
  200, the state is left as it was. When it answers with status 200 and a response that
  \<open>cache.put\<close> accepts, the fresh response is written into the dynamic namespace, and
  it is what \<open>caches.match\<close> finds afterwards provided that no other namespace holds
  the URL.
\<close>

lemma cacheFirst_stale_background:
  assumes "cachesMatch (caches st) (reqUrl rq) = Some cached"
      and "newDate e (headersGet (respHeaders cached) ''date'') = Some t"
      and "clock e - t > MAX_AGE_MS"
  shows "cacheFirstStrategy e rq st = (Some cached, st\<lparr>fetchLog := fetchLog st @ [rq]\<rparr>, [rq])"
    and "network e rq = None \<Longrightarrow> settle e rq st' = st'"
    and "network e rq = Some r \<Longrightarrow> status r \<noteq> 200 \<Longrightarrow> settle e rq st' = st'"
    and "network e rq = Some r \<Longrightarrow> status r = 200 \<Longrightarrow> putAccepts rq r \<Longrightarrow>
           cacheMatch (cacheOf DYNAMIC_CACHE_NAME (caches (settle e rq st'))) (reqUrl rq) = Some r"
    and "network e rq = Some r \<Longrightarrow> status r = 200 \<Longrightarrow> putAccepts rq r \<Longrightarrow>
           \<forall>(n, c) \<in> set (caches st'). n \<noteq> DYNAMIC_CACHE_NAME \<longrightarrow> cacheMatch c (reqUrl rq) = None \<Longrightarrow>
           cachesMatch (caches (settle e rq st')) (reqUrl rq) = Some r"
  using assms
  by (simp_all add: cacheFirst_hit settle_failed settle_not_200 settle_200 cacheResponse_stores
      cacheResponse_served)

text \<open>A stale entry of the dynamic namespace is overwritten by the refresh.\<close>

lemma cacheFirst_stale_dynamic_overwritten:
  "cachesMatch (caches staleDynamicState) (reqUrl manifestRequest) = Some staleManifest
   \<and> cacheFirstStrategy onlineEnv manifestRequest staleDynamicState
       = (Some staleManifest, staleDynamicState\<lparr>fetchLog := [manifestRequest]\<rparr>,
          [manifestRequest])
   \<and> cachesMatch
        (caches (settle onlineEnv manifestRequest
                   (staleDynamicState\<lparr>fetchLog := [manifestRequest]\<rparr>)))
        (reqUrl manifestRequest) = Some newManifest"
proof -
  have m: "cachesMatch (caches staleDynamicState) (reqUrl manifestRequest) = Some staleManifest"
    by (simp add: staleDynamicState_def emptyState_def manifestRequest_def cacheMatch_def
        manifestUrl_def urlKey_def)
  have d: "newDate onlineEnv (headersGet (respHeaders staleManifest) ''date'') = Some 1792825200000"
    by (simp add: newDate_def headersGet_def staleManifest_def onlineEnv_def offlineEnv_def
        exampleDateParse_def)
  have s: "clock onlineEnv - 1792825200000 > MAX_AGE_MS"
    by (simp add: onlineEnv_def offlineEnv_def exampleNow_def MAX_AGE_MS_def MAX_AGE_DAYS_def)
  have n: "network onlineEnv manifestRequest = Some newManifest"
    by (simp add: onlineEnv_def offlineEnv_def exampleNetwork_def manifestRequest_def)
  have ok: "status newManifest = 200"
    by (simp add: newManifest_def)
  have acc: "putAccepts manifestRequest newManifest"
    by (simp add: putAccepts_def manifestRequest_def manifestUrl_def newManifest_def
        httpScheme_def startsWith_def varyStar_def headersGet_def)
  have only: "\<forall>(n, c) \<in> set (caches (staleDynamicState\<lparr>fetchLog := [manifestRequest]\<rparr>)).
      n \<noteq> DYNAMIC_CACHE_NAME \<longrightarrow> cacheMatch c (reqUrl manifestRequest) = None"
    by (simp add: staleDynamicState_def emptyState_def DYNAMIC_CACHE_NAME_def cacheMatch_def
        manifestRequest_def manifestUrl_def urlKey_def)
  have log: "fetchLog staleDynamicState = []"
    by (simp add: staleDynamicState_def emptyState_def)
  show ?thesis
    using cacheFirst_stale_background(1) [OF m d s]
      cacheFirst_stale_background(5) [OF m d s n ok acc only] m log
    by simp
qed

text \<open>
  C6 says that for a stale entry the background fetch overwrites the entry on success.
  The strategy does return the stale response at once and starts the refresh, and the
  refresh of an entry of the dynamic namespace overwrites it (lemma
  \<open>cacheFirst_stale_dynamic_overwritten\<close>). Evaluated on a stale entry that the install
  has put into the static namespace, with a network that answers 200: the fresh response
  is written into the dynamic namespace, \<open>caches.match\<close> finds the static namespace
  first, and the lookup after the refresh still returns the stale response.
\<close>

theorem cacheFirst_stale_static_not_overwritten:
  "cachesMatch (caches staleStaticState) (reqUrl manifestRequest) = Some staleManifest
   \<and> newDate onlineEnv (headersGet (respHeaders staleManifest) ''date'') = Some 1792825200000
   \<and> clock onlineEnv - 1792825200000 > MAX_AGE_MS
   \<and> network onlineEnv manifestRequest = Some newManifest
   \<and> status newManifest = 200
   \<and> cacheFirstStrategy onlineEnv manifestRequest staleStaticState
       = (Some staleManifest, staleStaticState\<lparr>fetchLog := [manifestRequest]\<rparr>,
          [manifestRequest])
   \<and> caches (settle onlineEnv manifestRequest
                (staleStaticState\<lparr>fetchLog := [manifestRequest]\<rparr>))
       = [(''tests-hub-static-v2.1.7'', [(manifestUrl, staleManifest)]),
          (''tests-hub-dynamic-v2.1.7'', [(manifestUrl, newManifest)])]
   \<and> cachesMatch
        (caches (settle onlineEnv manifestRequest
                   (staleStaticState\<lparr>fetchLog := [manifestRequest]\<rparr>)))
        (reqUrl manifestRequest) = Some staleManifest
   \<and> staleManifest \<noteq> newManifest"
proof -
  have m: "cachesMatch (caches staleStaticState) (reqUrl manifestRequest) = Some staleManifest"
    by (simp add: staleStaticState_def emptyState_def manifestRequest_def cacheMatch_def)
  have d: "newDate onlineEnv (headersGet (respHeaders staleManifest) ''date'') = Some 1792825200000"
    by (simp add: newDate_def headersGet_def staleManifest_def onlineEnv_def offlineEnv_def
        exampleDateParse_def)
  have s: "clock onlineEnv - 1792825200000 > MAX_AGE_MS"
    by (simp add: onlineEnv_def offlineEnv_def exampleNow_def MAX_AGE_MS_def MAX_AGE_DAYS_def)
  have n: "network onlineEnv manifestRequest = Some newManifest"
    by (simp add: onlineEnv_def offlineEnv_def exampleNetwork_def manifestRequest_def)
  have ok: "status newManifest = 200"
    by (simp add: newManifest_def)
  have log: "fetchLog staleStaticState = []"
    by (simp add: staleStaticState_def emptyState_def)
  have hit: "cacheFirstStrategy onlineEnv manifestRequest staleStaticState
       = (Some staleManifest, staleStaticState\<lparr>fetchLog := [manifestRequest]\<rparr>,
          [manifestRequest])"
    using m d s log by (simp add: cacheFirst_hit)
  have est: "storageEstimate onlineEnv = None"
    by (simp add: onlineEnv_def offlineEnv_def)
  have acc: "putAccepts manifestRequest newManifest"
    by (simp add: putAccepts_def manifestRequest_def manifestUrl_def newManifest_def
        httpScheme_def startsWith_def varyStar_def headersGet_def)
  have after: "caches (settle onlineEnv manifestRequest
                         (staleStaticState\<lparr>fetchLog := [manifestRequest]\<rparr>))
      = [(''tests-hub-static-v2.1.7'', [(manifestUrl, staleManifest)]),
         (''tests-hub-dynamic-v2.1.7'', [(manifestUrl, newManifest)])]"
    unfolding settle_200 [OF n ok]
    using acc
    by (simp add: cacheResponse_def Let_def est cachesOpen_def cachesKeys_def cachePut_def
        cacheModify_def cacheReplace_def cacheOf_def DYNAMIC_CACHE_NAME_def
        staleStaticState_def emptyState_def manifestRequest_def)
  have still: "cachesMatch
        (caches (settle onlineEnv manifestRequest
                   (staleStaticState\<lparr>fetchLog := [manifestRequest]\<rparr>)))
        (reqUrl manifestRequest) = Some staleManifest"
    unfolding after by (simp add: manifestRequest_def cacheMatch_def)
  have ne: "staleManifest \<noteq> newManifest"
    by (simp add: staleManifest_def newManifest_def)
  show ?thesis
    using m d s n ok hit after still ne by simp
qed

subsection \<open>Entries without a parseable date\<close>

text \<open>
  What holds of such entries: the sweep never deletes them, and the cache-first strategy
  never refreshes an entry whose \<open>date\<close> header is present and rejected by the
  date parser. An entry with no \<open>date\<close> header at all is dated to the epoch by
  \<open>new Date(null)\<close>, so the strategy refreshes it on every request.
\<close>

lemma cacheFirst_missing_date_refreshes:
  assumes "cachesMatch (caches st) (reqUrl rq) = Some cached"
      and "headersGet (respHeaders cached) ''date'' = None"
      and "MAX_AGE_MS < clock e"
  shows "cacheFirstStrategy e rq st = (Some cached, st\<lparr>fetchLog := fetchLog st @ [rq]\<rparr>, [rq])"
  using assms by (simp add: cacheFirst_hit newDate_def)

lemma cacheFirst_unparseable_date_never_refreshes:
  assumes "cachesMatch (caches st) (reqUrl rq) = Some cached"
      and "headersGet (respHeaders cached) ''date'' = Some h"
      and "dateParse e h = None"
  shows "cacheFirstStrategy e rq st = (Some cached, st, [])"
  using assms by (simp add: cacheFirst_hit newDate_def)

lemma cacheMatch_cacheDelete:
  "cacheMatch (cacheDelete k' c) k = (if urlKey k = urlKey k' then None else cacheMatch c k)"
  unfolding cacheMatch_def cacheDelete_def by (induction c) auto

lemma cacheMatch_same_key: "urlKey k' = urlKey k \<Longrightarrow> cacheMatch c k' = cacheMatch c k"
  by (simp add: cacheMatch_def)

lemma cleanupEntry_keeps:
  assumes "cacheMatch c k = Some r" and "undatable e r"
  shows "cacheMatch (cleanupEntry e k' c) k = Some r"
proof (cases "urlKey k' = urlKey k")
  case True
  have same: "cacheMatch c k' = Some r"
    using cacheMatch_same_key [OF True, of c] assms(1) by simp
  have "cleanupEntry e k' c = c"
    using assms(2)
    by (simp add: cleanupEntry_def same undatable_def newDate_def split: option.splits)
  then show ?thesis
    using assms(1) by simp
next
  case False
  then have other: "cacheMatch (cacheDelete k' c) k = cacheMatch c k"
    by (auto simp: cacheMatch_cacheDelete)
  have "cleanupEntry e k' c = c \<or> cleanupEntry e k' c = cacheDelete k' c"
    by (simp add: cleanupEntry_def split: option.splits)
  then show ?thesis
    using assms(1) other by auto
qed

lemma cleanup_fold_keeps:
  assumes "cacheMatch c k = Some r" and "undatable e r"
  shows "cacheMatch (fold (cleanupEntry e) ks c) k = Some r"
  using assms by (induction ks arbitrary: c) (simp_all add: cleanupEntry_keeps)

lemma cacheMatch_Some_nonempty: "cacheMatch c k = Some r \<Longrightarrow> \<exists>x xs. c = x # xs"
  by (cases c) (simp_all add: cacheMatch_def)

lemma cleanup_never_deletes_undatable:
  assumes "cacheMatch (cacheOf DYNAMIC_CACHE_NAME (caches st)) k = Some r" and "undatable e r"
  shows "cacheMatch (cacheOf DYNAMIC_CACHE_NAME (caches (cleanupOldCacheEntries e st))) k = Some r"
proof -
  obtain x xs where "cacheOf DYNAMIC_CACHE_NAME (caches st) = x # xs"
    using cacheMatch_Some_nonempty [OF assms(1)] by blast
  then have present: "DYNAMIC_CACHE_NAME \<in> set (cachesKeys (caches st))"
    by (rule cacheOf_nonempty_present)
  have opened: "cachesOpen DYNAMIC_CACHE_NAME (caches st) = caches st"
    by (rule cachesOpen_idem [OF present])
  show ?thesis
    using assms
    by (simp add: cleanupOldCacheEntries_def Let_def opened cacheOf_cacheModify_same present
        cleanup_fold_keeps)
qed

text \<open>
  C10 says that an entry whose stored response lacks a parseable \<open>date\<close> header is
  never treated as stale. The sweep \<open>cleanupOldCacheEntries\<close> guards the header with
  \<open>if (dateHeader)\<close> and keeps such an entry (lemma \<open>cleanup_never_deletes_undatable\<close>);
  \<open>cacheFirstStrategy\<close> has no such guard. Evaluated on an entry of the dynamic
  namespace with no \<open>date\<close> header: the strategy returns the entry, has issued the
  fetch of a refresh, and has the background \<open>fetchAndCache\<close> pending.
\<close>

theorem cacheFirst_undated_entry_refreshes:
  "cachesMatch (caches undatedState) (reqUrl manifestRequest) = Some undatedManifest
   \<and> headersGet (respHeaders undatedManifest) ''date'' = None
   \<and> cacheFirstStrategy offlineEnv manifestRequest undatedState
       = (Some undatedManifest, undatedState\<lparr>fetchLog := [manifestRequest]\<rparr>,
          [manifestRequest])"
proof -
  have m: "cachesMatch (caches undatedState) (reqUrl manifestRequest) = Some undatedManifest"
    by (simp add: undatedState_def emptyState_def manifestRequest_def cacheMatch_def)
  have h: "headersGet (respHeaders undatedManifest) ''date'' = None"
    by (simp add: headersGet_def undatedManifest_def)
  have t: "MAX_AGE_MS < clock offlineEnv"
    by (simp add: offlineEnv_def exampleNow_def MAX_AGE_MS_def MAX_AGE_DAYS_def)
  have log: "fetchLog undatedState = []"
    by (simp add: undatedState_def emptyState_def)
  show ?thesis
    using cacheFirst_missing_date_refreshes [OF m h t] m h log by simp
qed

subsection \<open>What is persisted\<close>

lemma networkFirst_stores_any_status:
  assumes "network e rq = Some r" and "putAccepts rq r"
  shows "fst (networkFirstStrategy e rq st) = Some r
         \<and> cacheMatch (cacheOf DYNAMIC_CACHE_NAME (caches (snd (networkFirstStrategy e rq st))))
              (reqUrl rq) = Some r"
proof -
  let ?st1 = "st\<lparr>fetchLog := fetchLog st @ [rq]\<rparr>"
  obtain st2 where run: "cacheResponse e rq r ?st1 = (None, st2)"
    using cacheResponse_stores(1) [OF assms(2), of e ?st1] by (cases "cacheResponse e rq r ?st1") simp
  have "cacheMatch (cacheOf DYNAMIC_CACHE_NAME (caches st2)) (reqUrl rq) = Some r"
    using cacheResponse_stores(2) [OF assms(2), of e ?st1] run by simp
  then show ?thesis
    using assms(1) run by (simp add: networkFirstStrategy_def fetch_answer)
qed

text \<open>
  C2 says that no cache write stores a response with a status outside 2xx.
  \<open>fetchAndCache\<close> tests \<open>status === 200\<close> and \<open>updateCachedContent\<close> tests
  \<open>response.ok\<close> before writing (lemmas \<open>fetchAndCache_keeps_ok\<close> and
  \<open>updateCachedContent_keeps_ok\<close> below); \<open>networkFirstStrategy\<close> writes the
  network's response through without a test. Evaluated on a document request that the
  network answers with 404: the 404 response is the entry of the dynamic namespace
  afterwards.
\<close>

theorem networkFirst_persists_404:
  "network onlineEnv missingRequest = Some notFoundResponse
   \<and> status notFoundResponse = 404
   \<and> \<not> responseOk notFoundResponse
   \<and> cacheMatch
        (cacheOf DYNAMIC_CACHE_NAME
           (caches (snd (networkFirstStrategy onlineEnv missingRequest shellState))))
        (reqUrl missingRequest) = Some notFoundResponse"
proof -
  have n: "network onlineEnv missingRequest = Some notFoundResponse"
    by (simp add: onlineEnv_def offlineEnv_def exampleNetwork_def missingRequest_def
        missingUrl_def manifestUrl_def)
  have s: "status notFoundResponse = 404" "\<not> responseOk notFoundResponse"
    by (simp_all add: notFoundResponse_def responseOk_def)
  have acc: "putAccepts missingRequest notFoundResponse"
    by (simp add: putAccepts_def missingRequest_def missingUrl_def notFoundResponse_def
        httpScheme_def startsWith_def varyStar_def headersGet_def)
  show ?thesis
    using networkFirst_stores_any_status [OF n acc] n s by simp
qed

lemma entriesOk_cacheReplace:
  "responseOk r \<Longrightarrow> entriesOk c \<Longrightarrow> entriesOk (cacheReplace k r c)"
  by (auto simp: entriesOk_def cacheReplace_def list_all_iff)

lemma entriesOk_cacheDelete: "entriesOk c \<Longrightarrow> entriesOk (cacheDelete k c)"
  by (auto simp: entriesOk_def cacheDelete_def list_all_iff)

lemma storedOk_cachesOpen: "storedOk cs \<Longrightarrow> storedOk (cachesOpen n cs)"
  by (auto simp: storedOk_def cachesOpen_def entriesOk_def)

lemma storedOk_cacheModify:
  "(\<And>c. entriesOk c \<Longrightarrow> entriesOk (f c)) \<Longrightarrow> storedOk cs \<Longrightarrow> storedOk (cacheModify n f cs)"
  by (auto simp: storedOk_def cacheModify_def list_all_iff split: if_splits)

lemma storedOk_cacheOf: "storedOk cs \<Longrightarrow> entriesOk (cacheOf n cs)"
  by (induction cs) (auto simp: storedOk_def cacheOf_def entriesOk_def)

lemma storedOk_cacheResponse:
  assumes "responseOk resp" and "storedOk (caches st)"
  shows "storedOk (caches (snd (cacheResponse e rq resp st)))"
proof -
  from cacheResponse_shape [of e rq resp st]
  obtain f where f: "f = (\<lambda>c. c) \<or> (\<exists>k. f = cacheDelete k)"
    and shape: "cacheResponse e rq resp st
           = (let cs1 = cacheModify DYNAMIC_CACHE_NAME f
                          (cachesOpen DYNAMIC_CACHE_NAME (caches st))
              in if putAccepts rq resp
                 then (None, st\<lparr>caches := cacheModify DYNAMIC_CACHE_NAME
                          (\<lambda>_. cacheReplace (reqUrl rq) resp (cacheOf DYNAMIC_CACHE_NAME cs1))
                          cs1\<rparr>)
                 else (Some TypeError, st\<lparr>caches := cs1\<rparr>))"
    by (elim exE conjE) (rule that, assumption+)
  let ?cs1 = "cacheModify DYNAMIC_CACHE_NAME f (cachesOpen DYNAMIC_CACHE_NAME (caches st))"
  let ?c = "cacheReplace (reqUrl rq) resp (cacheOf DYNAMIC_CACHE_NAME ?cs1)"
  have ok0: "storedOk (cachesOpen DYNAMIC_CACHE_NAME (caches st))"
    by (rule storedOk_cachesOpen [OF assms(2)])
  have pres: "entriesOk (f c)" if "entriesOk c" for c
    using f that by (auto simp: entriesOk_cacheDelete)
  have ok1: "storedOk ?cs1"
    by (rule storedOk_cacheModify [OF pres ok0])
  have new: "entriesOk ?c"
    by (rule entriesOk_cacheReplace [OF assms(1) storedOk_cacheOf [OF ok1]])
  have ok2: "storedOk (cacheModify DYNAMIC_CACHE_NAME (\<lambda>_. ?c) ?cs1)"
    by (rule storedOk_cacheModify [OF new ok1])
  show ?thesis
  proof (cases "putAccepts rq resp")
    case True
    then show ?thesis
      unfolding shape Let_def using ok2 by simp
  next
    case False
    then show ?thesis
      unfolding shape Let_def using ok1 by simp
  qed
qed

lemma fetchAndCache_keeps_ok:
  assumes "storedOk (caches st)"
  shows "storedOk (caches (snd (fetchAndCache e rq st)))"
proof (cases "network e rq")
  case None
  then show ?thesis
    using assms by (simp add: fetchAndCache_def fetch_failed fetchAndCacheResume_def)
next
  case (Some r)
  let ?st1 = "st\<lparr>fetchLog := fetchLog st @ [rq]\<rparr>"
  show ?thesis
  proof (cases "status r = 200")
    case True
    then have "responseOk r" by (simp add: responseOk_def)
    then have "storedOk (caches (snd (cacheResponse e rq r ?st1)))"
      using assms by (intro storedOk_cacheResponse) simp_all
    then show ?thesis
      using Some True
      by (cases "cacheResponse e rq r ?st1")
         (auto simp: fetchAndCache_def fetch_answer fetchAndCacheResume_def
           split: option.splits)
  next
    case False
    then show ?thesis
      using assms Some by (simp add: fetchAndCache_def fetch_answer fetchAndCacheResume_def)
  qed
qed

lemma updatePage_keeps_ok:
  assumes "storedOk (caches st)"
  shows "storedOk (caches (updatePage e u st))"
proof (cases "network e (mkRequest e u)")
  case None
  then show ?thesis
    using assms by (simp add: updatePage_def fetch_failed)
next
  case (Some r)
  let ?cs = "cachesOpen DYNAMIC_CACHE_NAME (caches st)"
  have ok: "storedOk ?cs"
    by (intro storedOk_cachesOpen assms)
  show ?thesis
  proof (cases "responseOk r")
    case True
    then have "entriesOk (cacheReplace (reqUrl (mkRequest e u)) r (cacheOf DYNAMIC_CACHE_NAME ?cs))"
      by (intro entriesOk_cacheReplace storedOk_cacheOf ok)
    then have "storedOk (cacheModify DYNAMIC_CACHE_NAME
                 (\<lambda>_. cacheReplace (reqUrl (mkRequest e u)) r (cacheOf DYNAMIC_CACHE_NAME ?cs)) ?cs)"
      by (intro storedOk_cacheModify ok)
    then show ?thesis
      using Some True ok
      by (simp add: updatePage_def fetch_answer Let_def cachePut_def)
  next
    case False
    then show ?thesis
      using assms Some by (simp add: updatePage_def fetch_answer)
  qed
qed

lemma updateCachedContent_keeps_ok:
  assumes "storedOk (caches st)"
  shows "storedOk (caches (updateCachedContent e st))"
proof -
  have "storedOk (caches st) \<Longrightarrow> storedOk (caches (fold (updatePage e) us st))" for us st
    by (induction us arbitrary: st) (simp_all add: updatePage_keeps_ok)
  then show ?thesis
    using assms by (simp add: updateCachedContent_def showNotification_def)
qed

subsection \<open>The network-first strategy, its fallbacks\<close>

lemma offlineHtml_retry: "includesStr offlineHtml retryControl"
  by (simp add: offlineHtml_def retryControl_def startsWith_def)

lemma offlineResponse_document:
  assumes "acceptsHtml rq"
  shows "status (offlineResponse rq) = 200"
    and "headersGet (respHeaders (offlineResponse rq)) ''content-type'' = Some ''text/html''"
    and "includesStr (body (offlineResponse rq)) retryControl"
  using assms by (simp_all add: offlineResponse_def headersGet_def offlineHtml_retry)

lemma networkFirst_offline:
  assumes "network e rq = None"
  shows "networkFirstStrategy e rq st =
     (case cachesMatch (caches st) (reqUrl rq) of
        Some cachedResponse \<Rightarrow> (Some cachedResponse, st\<lparr>fetchLog := fetchLog st @ [rq]\<rparr>)
      | None \<Rightarrow>
          if acceptsHtml rq
          then (cachesMatch (caches st) (resolveUrl e ''/''), st\<lparr>fetchLog := fetchLog st @ [rq]\<rparr>)
          else (Some (offlineResponse rq), st\<lparr>fetchLog := fetchLog st @ [rq]\<rparr>))"
  using assms
  by (simp add: networkFirstStrategy_def networkFirstCatch_def fetch_failed split: option.splits)

text \<open>
  When the root entry is not cached either, the strategy's result is \<open>undefined\<close>:
  the page of \<open>offlineResponse\<close> is not reached for a document request.
\<close>

lemma networkFirst_offline_document_nothing_cached:
  assumes "acceptsHtml rq"
      and "network e rq = None"
      and "cachesMatch (caches st) (reqUrl rq) = None"
      and "cachesMatch (caches st) (resolveUrl e ''/'') = None"
  shows "fst (networkFirstStrategy e rq st) = None"
  using assms by (simp add: networkFirst_offline)

text \<open>
  C1, as stated: a document request whose fetch fails and that has no matching cache
  entry is answered by the synthesized offline page. It fails after an install: the
  static namespace holds the root entry, and the strategy answers the request for
  another page with that entry, which is not the offline page and has no retry control.
\<close>

theorem networkFirst_offline_document_counterexample:
  "reqMethod documentRequest = ''GET''
   \<and> acceptsHtml documentRequest
   \<and> network offlineEnv documentRequest = None
   \<and> cachesMatch (caches shellState) (reqUrl documentRequest) = None
   \<and> fst (networkFirstStrategy offlineEnv documentRequest shellState) = Some shellResponse
   \<and> shellResponse \<noteq> offlineResponse documentRequest
   \<and> \<not> includesStr (body shellResponse) retryControl"
proof -
  have a: "acceptsHtml documentRequest"
    by (simp add: acceptsHtml_def documentRequest_def headersGet_def startsWith_def)
  have g: "reqMethod documentRequest = ''GET''"
    by (simp add: documentRequest_def)
  have n: "network offlineEnv documentRequest = None"
    by (simp add: offlineEnv_def noNetwork_def)
  have m: "cachesMatch (caches shellState) (reqUrl documentRequest) = None"
    by (simp add: shellState_def emptyState_def documentRequest_def cacheMatch_def urlKey_def)
  have r: "cachesMatch (caches shellState) (resolveUrl offlineEnv ''/'') = Some shellResponse"
    by (simp add: shellState_def emptyState_def resolveUrl_def offlineEnv_def exampleOrigin_def
        cacheMatch_def urlKey_def)
  have f: "fst (networkFirstStrategy offlineEnv documentRequest shellState) = Some shellResponse"
    using a n m r by (simp add: networkFirst_offline)
  have noretry: "\<not> includesStr (body shellResponse) retryControl"
    by (simp add: shellResponse_def retryControl_def startsWith_def)
  have "body shellResponse \<noteq> body (offlineResponse documentRequest)"
    using noretry offlineResponse_document(3) [OF a] by metis
  then have ne: "shellResponse \<noteq> offlineResponse documentRequest"
    by metis
  show ?thesis
    using g a n m f ne noretry by simp
qed

text \<open>
  C1, amended: for a GET request classified as document whose fetch fails and for which
  no cache entry matches, \<open>networkFirstStrategy\<close> returns the cached root entry
  (\<open>caches.match('/')\<close>) whenever the cache storage holds one, and leaves the cache
  storage as it was. The synthesized offline page, a response with content type
  \<open>text/html\<close>, status 200 and a body that contains the retry control, is what
  \<open>offlineResponse\<close> builds for a document request.
\<close>

theorem networkFirst_offline_document_shell:
  assumes "acceptsHtml rq"
      and "network e rq = None"
      and "cachesMatch (caches st) (reqUrl rq) = None"
      and "cachesMatch (caches st) (resolveUrl e ''/'') = Some shell"
  shows "fst (networkFirstStrategy e rq st) = Some shell
         \<and> caches (snd (networkFirstStrategy e rq st)) = caches st
         \<and> status (offlineResponse rq) = 200
         \<and> headersGet (respHeaders (offlineResponse rq)) ''content-type'' = Some ''text/html''
         \<and> includesStr (body (offlineResponse rq)) retryControl"
  using assms by (simp add: networkFirst_offline offlineResponse_document)

theorem networkFirst_offline_document_shell_witness:
  "acceptsHtml documentRequest
   \<and> network offlineEnv documentRequest = None
   \<and> cachesMatch (caches shellState) (reqUrl documentRequest) = None
   \<and> cachesMatch (caches shellState) (resolveUrl offlineEnv ''/'') = Some shellResponse
   \<and> fst (networkFirstStrategy offlineEnv documentRequest shellState) = Some shellResponse
   \<and> status (offlineResponse documentRequest) = 200
   \<and> includesStr (body (offlineResponse documentRequest)) retryControl"
proof -
  have a: "acceptsHtml documentRequest"
    by (simp add: acceptsHtml_def documentRequest_def headersGet_def startsWith_def)
  have n: "network offlineEnv documentRequest = None"
    by (simp add: offlineEnv_def noNetwork_def)
  have m: "cachesMatch (caches shellState) (reqUrl documentRequest) = None"
    by (simp add: shellState_def emptyState_def documentRequest_def cacheMatch_def urlKey_def)
  have r: "cachesMatch (caches shellState) (resolveUrl offlineEnv ''/'') = Some shellResponse"
    by (simp add: shellState_def emptyState_def resolveUrl_def offlineEnv_def exampleOrigin_def
        cacheMatch_def urlKey_def)
  show ?thesis
    using networkFirst_offline_document_shell [OF a n m r] a n m r by simp
qed

text \<open>
  A partial response reaches \<open>cacheResponse\<close> through \<open>networkFirstStrategy\<close>. Under
  pressure the oldest entry, here the shell, is deleted, the \<open>put\<close> is refused, and
  the \<open>catch\<close> block answers from what is left of the cache.
\<close>

lemma networkFirst_partial_under_pressure:
  "network partialEnv documentRequest = Some partialResponse
   \<and> fst (networkFirstStrategy partialEnv documentRequest pressureState) = None
   \<and> cacheOf DYNAMIC_CACHE_NAME
        (caches (snd (networkFirstStrategy partialEnv documentRequest pressureState)))
       = [(manifestUrl, freshManifest)]"
proof -
  let ?st1 = "pressureState\<lparr>fetchLog := fetchLog pressureState @ [documentRequest]\<rparr>"
  have n: "network partialEnv documentRequest = Some partialResponse"
    by (simp add: partialEnv_def pressureEnv_def offlineEnv_def partialNetwork_def)
  have est: "storageEstimate partialEnv = Some (95, 100)"
    by (simp add: partialEnv_def pressureEnv_def offlineEnv_def)
  have over: "overQuota 95 100"
    by (simp add: overQuota_def)
  have dyn: "cacheOf DYNAMIC_CACHE_NAME (caches ?st1)
       = (''https://testshub.example/'', shellResponse) # [(manifestUrl, freshManifest)]"
    by (simp add: pressureState_def emptyState_def cacheOf_def DYNAMIC_CACHE_NAME_def)
  have dist: "distinct (map urlKey (cacheKeys ((''https://testshub.example/'', shellResponse)
                # [(manifestUrl, freshManifest)])))"
    by (simp add: cacheKeys_def manifestUrl_def urlKey_def)
  have ref: "\<not> putAccepts documentRequest partialResponse"
    by (simp add: putAccepts_def partialResponse_def)
  have a: "acceptsHtml documentRequest"
    by (simp add: acceptsHtml_def documentRequest_def headersGet_def startsWith_def)
  obtain st2 where run: "cacheResponse partialEnv documentRequest partialResponse ?st1
        = (Some TypeError, st2)"
    and left: "cacheOf DYNAMIC_CACHE_NAME (caches st2) = [(manifestUrl, freshManifest)]"
    and all: "caches st2 = cacheModify DYNAMIC_CACHE_NAME
                (cacheDelete ''https://testshub.example/'') (caches ?st1)"
    using ref cacheResponse_under_pressure(1) [OF est over dyn dist, of documentRequest partialResponse]
      cacheResponse_under_pressure(2) [OF est over dyn dist]
    by (simp add: Let_def)
  have st2: "caches st2 = [(''tests-hub-dynamic-v2.1.7'', [(manifestUrl, freshManifest)])]"
    unfolding all
    by (simp add: pressureState_def emptyState_def cacheModify_def DYNAMIC_CACHE_NAME_def
        cacheDelete_def manifestUrl_def urlKey_def)
  have miss: "cachesMatch (caches st2) (reqUrl documentRequest) = None"
    "cachesMatch (caches st2) (resolveUrl partialEnv ''/'') = None"
    unfolding st2
    by (simp_all add: cacheMatch_def documentRequest_def manifestUrl_def urlKey_def
        resolveUrl_def partialEnv_def pressureEnv_def offlineEnv_def exampleOrigin_def)
  have "networkFirstStrategy partialEnv documentRequest pressureState
        = networkFirstCatch partialEnv documentRequest st2"
    by (simp add: networkFirstStrategy_def fetch_answer [OF n] run)
  then show ?thesis
    using n miss a left by (simp add: networkFirstCatch_def)
qed

subsection \<open>Push notifications\<close>

lemma pushHandler_json:
  assumes "jsonParse e payload = Some d"
  shows "notifications (pushHandler e (Some payload) st)
           = notifications st @
             [\<lparr>ntitle = (defaultNotificationData e ++ map_of (spreadProps d)) ''title'',
               noptions = defaultNotificationData e ++ map_of (spreadProps d)\<rparr>]"
  using assms by (simp add: pushHandler_def showNotification_def Let_def)

lemma pushHandler_text:
  assumes "jsonParse e payload = None"
  shows "notifications (pushHandler e (Some payload) st)
           = notifications st @
             [\<lparr>ntitle = Some (JString ''Tests Hub''),
               noptions = (defaultNotificationData e)(''body'' \<mapsto> JString payload)\<rparr>]"
  using assms
  by (simp add: pushHandler_def showNotification_def Let_def defaultNotificationData_def)

lemma pushHandler_no_data:
  "notifications (pushHandler e None st)
     = notifications st @
       [\<lparr>ntitle = Some (JString ''Tests Hub''), noptions = defaultNotificationData e\<rparr>]"
  by (simp add: pushHandler_def showNotification_def Let_def defaultNotificationData_def)

lemma pushHandler_appends_one:
  "\<exists>n. notifications (pushHandler e eventData st) = notifications st @ [n]"
  by (simp add: pushHandler_def showNotification_def Let_def)

text \<open>
  C7: every push event appends exactly one notification to those shown. When the payload
  parses as JSON, the notification's options are the payload's properties merged over the
  defaults (a property of the payload wins, every other key keeps its default), and its
  title is the merged \<open>title\<close>; for the payload \<open>{"title": x, "body": y}\<close> the
  title is \<open>x\<close>, the body \<open>y\<close>, and the icon and the tag are the defaults. When
  the payload is not JSON, the body is the raw text of the payload and the title, the
  icon and the tag are the defaults.
\<close>

theorem pushHandler_always_notifies:
  "(jsonParse e payload = Some d \<longrightarrow>
      (\<exists>n. notifications (pushHandler e (Some payload) st) = notifications st @ [n]
         \<and> ntitle n = noptions n ''title''
         \<and> (\<forall>k. noptions n k =
               (case map_of (spreadProps d) k of
                  Some v \<Rightarrow> Some v
                | None \<Rightarrow> defaultNotificationData e k))))
   \<and> (jsonParse e payload = Some (JObject [(''title'', JString x), (''body'', JString y)]) \<longrightarrow>
      (\<exists>n. notifications (pushHandler e (Some payload) st) = notifications st @ [n]
         \<and> ntitle n = Some (JString x)
         \<and> noptions n ''body'' = Some (JString y)
         \<and> noptions n ''icon'' = Some (JString NOTIFICATION_ICON)
         \<and> noptions n ''tag'' = Some (JString ''testshub-update'')))
   \<and> (jsonParse e payload = None \<longrightarrow>
      (\<exists>n. notifications (pushHandler e (Some payload) st) = notifications st @ [n]
         \<and> ntitle n = Some (JString ''Tests Hub'')
         \<and> noptions n ''body'' = Some (JString payload)
         \<and> noptions n ''icon'' = Some (JString NOTIFICATION_ICON)
         \<and> noptions n ''tag'' = Some (JString ''testshub-update'')))
   \<and> length (notifications (pushHandler e eventData st)) = Suc (length (notifications st))"
proof -
  have merged: "jsonParse e payload = Some d \<Longrightarrow>
      (\<exists>n. notifications (pushHandler e (Some payload) st) = notifications st @ [n]
         \<and> ntitle n = noptions n ''title''
         \<and> (\<forall>k. noptions n k =
               (case map_of (spreadProps d) k of
                  Some v \<Rightarrow> Some v
                | None \<Rightarrow> defaultNotificationData e k)))"
    by (simp add: pushHandler_json map_add_def split: option.splits)
  have scenario: "jsonParse e payload = Some (JObject [(''title'', JString x), (''body'', JString y)]) \<Longrightarrow>
      (\<exists>n. notifications (pushHandler e (Some payload) st) = notifications st @ [n]
         \<and> ntitle n = Some (JString x)
         \<and> noptions n ''body'' = Some (JString y)
         \<and> noptions n ''icon'' = Some (JString NOTIFICATION_ICON)
         \<and> noptions n ''tag'' = Some (JString ''testshub-update''))"
    by (simp add: pushHandler_json map_add_def defaultNotificationData_def)
  have raw: "jsonParse e payload = None \<Longrightarrow>
      (\<exists>n. notifications (pushHandler e (Some payload) st) = notifications st @ [n]
         \<and> ntitle n = Some (JString ''Tests Hub'')
         \<and> noptions n ''body'' = Some (JString payload)
         \<and> noptions n ''icon'' = Some (JString NOTIFICATION_ICON)
         \<and> noptions n ''tag'' = Some (JString ''testshub-update''))"
    by (simp add: pushHandler_text defaultNotificationData_def)
  have one: "length (notifications (pushHandler e eventData st)) = Suc (length (notifications st))"
    using pushHandler_appends_one [of e eventData st] by auto
  show ?thesis
    using merged scenario raw one by blast
qed

theorem pushHandler_always_notifies_witness:
  "jsonParse offlineEnv titleBodyPayload
     = Some (JObject [(''title'', JString ''X''), (''body'', JString ''Y'')])
   \<and> jsonParse offlineEnv ''hello'' = None
   \<and> (\<exists>n. notifications (pushHandler offlineEnv (Some titleBodyPayload) emptyState) = [n]
         \<and> ntitle n = Some (JString ''X'')
         \<and> noptions n ''body'' = Some (JString ''Y'')
         \<and> noptions n ''icon'' = Some (JString ''/assets/icons/icon-96x96.png'')
         \<and> noptions n ''tag'' = Some (JString ''testshub-update''))
   \<and> (\<exists>n. notifications (pushHandler offlineEnv (Some ''hello'') emptyState) = [n]
         \<and> ntitle n = Some (JString ''Tests Hub'')
         \<and> noptions n ''body'' = Some (JString ''hello''))"
proof -
  have p: "jsonParse offlineEnv titleBodyPayload
     = Some (JObject [(''title'', JString ''X''), (''body'', JString ''Y'')])"
    by (simp add: offlineEnv_def exampleJsonParse_def)
  have q: "jsonParse offlineEnv ''hello'' = None"
    by (simp add: offlineEnv_def exampleJsonParse_def titleBodyPayload_def)
  have e: "notifications emptyState = []"
    by (simp add: emptyState_def)
  have a: "\<exists>n. notifications (pushHandler offlineEnv (Some titleBodyPayload) emptyState) = [n]
         \<and> ntitle n = Some (JString ''X'')
         \<and> noptions n ''body'' = Some (JString ''Y'')
         \<and> noptions n ''icon'' = Some (JString ''/assets/icons/icon-96x96.png'')
         \<and> noptions n ''tag'' = Some (JString ''testshub-update'')"
    using pushHandler_always_notifies [where e = offlineEnv and payload = titleBodyPayload and x = "''X''" and y = "''Y''"
          and st = emptyState] p e
    by (simp add: NOTIFICATION_ICON_def)
  have b: "\<exists>n. notifications (pushHandler offlineEnv (Some ''hello'') emptyState) = [n]
         \<and> ntitle n = Some (JString ''Tests Hub'')
         \<and> noptions n ''body'' = Some (JString ''hello'')"
    using pushHandler_always_notifies [where e = offlineEnv and payload = "''hello''" and st = emptyState] q e
    by auto
  show ?thesis
    using p q a b by simp
qed

text \<open>
  A payload that is a JSON string, such as \<open>"hello"\<close> written with its quotation marks,
  parses: only its indices are merged, and the body stays the default one.
\<close>

lemma pushHandler_json_string:
  assumes "jsonParse e payload = Some (JString ''hello'')"
  shows "\<exists>n. notifications (pushHandler e (Some payload) st) = notifications st @ [n]
         \<and> ntitle n = Some (JString ''Tests Hub'')
         \<and> noptions n ''body'' = Some (JString ''New tests and updates available!'')
         \<and> noptions n ''0'' = Some (JString ''h'')"
  using assms
  by (simp add: pushHandler_json map_add_def defaultNotificationData_def indexed_def upt_rec)

subsection \<open>The version reply\<close>

text \<open>
  C8 says that the reply to \<open>GET_VERSION\<close> carries the current version identifier of
  the worker. The handler replies on the first port with the cache name
  \<open>tests-hub-v2.1.7\<close> and with the version literal \<open>2.0.0\<close>, which is not the
  version tag \<open>2.1.7\<close> that the three cache names (and the header comment of the file)
  carry.
\<close>

theorem messageHandler_reports_stale_version:
  "messageHandler (JObject [(''type'', JString ''GET_VERSION'')]) (p # ps) st
     = Inr (st\<lparr>posted := posted st @
                [(p, \<lparr>version = ''2.0.0'', cacheName = ''tests-hub-v2.1.7''\<rparr>)]\<rparr>)
   \<and> CACHE_NAME = ''tests-hub-v'' @ ''2.1.7''
   \<and> STATIC_CACHE_NAME = ''tests-hub-static-v'' @ ''2.1.7''
   \<and> DYNAMIC_CACHE_NAME = ''tests-hub-dynamic-v'' @ ''2.1.7''
   \<and> ''2.0.0'' \<noteq> ''2.1.7''"
  by (simp add: messageHandler_def messageType_def CACHE_NAME_def STATIC_CACHE_NAME_def
      DYNAMIC_CACHE_NAME_def)

end
